theory Spec2Isabelle
  imports Complex_Main
begin

section \<open>Foreign-key editor (EditFkComponent)\<close>

text \<open>
  The component is an object with mutable fields; every method below takes the component
  and returns it updated. Calls to injected collaborators whose answers the component
  depends on (the entity column behind \<open>columnContainer\<close>, the candidate source
  \<open>selectedTable.Get\<close>, \<open>DbObjectKey.FromXml\<close>) are parameters of the methods,
  and every such call, every emitted \<open>valueHasChanged\<close> event and every error handed
  to the error handler is appended to the field \<open>effects\<close>, in program order.
  Calls to the logger and to \<open>changeDetectorRef.detectChanges\<close> do not touch a field
  of the component and are left out. A method that can end by throwing returns the thrown
  value next to the state it leaves behind. The types declared in the libraries
  (\<open>imx-qbm-dbts\<close>, \<open>qbm\<close>) have the properties that the component reads or
  writes.
\<close>

subsection \<open>Data\<close>

datatype Error = TypeError | Rejected string

text \<open>
  \<open>ValueStruct<string>\<close>; a \<open>Candidate\<close> is the same object shape with the
  additional property \<open>displayLong\<close>. A property that is \<open>undefined\<close> is \<open>None\<close>.
\<close>

record ValueStruct =
  DataValue :: "string option"
  DisplayValue :: "string option"
  displayLong :: "string option"

type_synonym Candidate = ValueStruct

text \<open>What the form control can hold: nothing, the typed text, or a selected object.\<close>

datatype ControlValue = Undefined | Text string | Struct ValueStruct

record IForeignKeyInfo =
  TableName :: string
  ColumnName :: string

type_synonym FilterData = string

record CollectionLoadParameters =
  PageSize :: int
  StartIndex :: int
  search :: "string option"
  filter' :: "FilterData list option"

text \<open>
  The optional argument \<open>newState\<close> of \<open>updateCandidates\<close>: an object literal in which
  a key may be missing (\<open>None\<close>) or present, possibly with the value \<open>undefined\<close>
  (\<open>Some None\<close>).
\<close>

record NewState =
  ns_PageSize :: "int option"
  ns_StartIndex :: "int option"
  ns_search :: "string option option"
  ns_filter :: "FilterData list option option"

record EntityColumnData =
  Value :: "string option"

record EntityData =
  Display :: "string option"
  LongDisplay :: "string option"
  Columns :: "(string \<rightharpoonup> EntityColumnData) option"
  Keys :: "string list option"

record EntityCollectionData =
  TotalCount :: int
  Entities :: "EntityData list option"
  Hierarchy :: "string option"

record DbObjectKey =
  key_TableName :: string

text \<open>The getters of \<open>EntityColumnContainer\<close> that the component reads.\<close>

record EntityColumnContainer =
  cc_value :: "string option"
  cc_displayValue :: "string option"
  canEdit :: bool
  isValueRequired :: bool
  fkRelations :: "IForeignKeyInfo list option"

record ValueHasChangedEventArg =
  ev_value :: ControlValue
  forceEmit :: bool

datatype Effect =
    UpdateValueStruct "ValueStruct option"
  | Emit ValueHasChangedEventArg
  | HandleError Error
  | GetCandidates IForeignKeyInfo CollectionLoadParameters
  | UpdateNonExisting "string list"

datatype Validator = Required | CheckAutocomplete

text \<open>
  \<open>savedParameters\<close> is a reference: it is unset, or it points to the very object
  \<open>parameters\<close> points to (so that an in-place change of \<open>parameters.StartIndex\<close>
  shows through it), or to another object.
\<close>

datatype SavedParameters = NotSaved | SameObject | OtherObject CollectionLoadParameters

record EditFkComponent =
  control_value :: ControlValue
  control_dirty :: bool
  control_validators :: "Validator list"
  columnContainer :: EntityColumnContainer
  candidates :: "Candidate list option"
  loading :: bool
  selectedTable :: "IForeignKeyInfo option"
  isHierarchical :: "bool option"
  candidatesTotalCount :: "int option"
  parameters :: CollectionLoadParameters
  savedParameters :: SavedParameters
  savedCandidates :: "Candidate list option"
  isWriting :: bool
  effects :: "Effect list"

text \<open>
  The collaborators whose answers the component depends on. \<open>updateValueStruct\<close>
  answers with the column as the update leaves it, or with the error it throws (the
  column is then taken to be as before); \<open>Get\<close> answers with a collection, with
  nothing, or with a rejection; \<open>FromXml\<close> with the key it reads or a throw.
\<close>

record Externals =
  updateValueStruct :: "EntityColumnContainer \<Rightarrow> ValueStruct option \<Rightarrow> Error + EntityColumnContainer"
  Get :: "IForeignKeyInfo \<Rightarrow> CollectionLoadParameters \<Rightarrow> Error + EntityCollectionData option"
  FromXml :: "string \<Rightarrow> Error + DbObjectKey"

definition pageSize :: int where
  "pageSize = 20"

subsection \<open>Helpers of the embedding\<close>

definition truthy :: "string option \<Rightarrow> bool" where
  "truthy x = (case x of None \<Rightarrow> False | Some t \<Rightarrow> t \<noteq> [])"

definition toControl :: "ValueStruct option \<Rightarrow> ControlValue" where
  "toControl v = (case v of None \<Rightarrow> Undefined | Some x \<Rightarrow> Struct x)"

definition perform :: "Effect \<Rightarrow> EditFkComponent \<Rightarrow> EditFkComponent" where
  "perform e s = s\<lparr>effects := effects s @ [e]\<rparr>"

text \<open>\<open>this.parameters = p\<close> with a fresh object \<open>p\<close>: a saved reference to the old
  object keeps the old object.\<close>

definition assignParameters :: "CollectionLoadParameters \<Rightarrow> EditFkComponent \<Rightarrow> EditFkComponent" where
  "assignParameters p s =
     s\<lparr>parameters := p,
       savedParameters := (case savedParameters s of
                             SameObject \<Rightarrow> OtherObject (parameters s)
                           | r \<Rightarrow> r)\<rparr>"

text \<open>\<open>{ ...parameters, ...newState }\<close>\<close>

definition spread :: "CollectionLoadParameters \<Rightarrow> NewState \<Rightarrow> CollectionLoadParameters" where
  "spread p n =
     \<lparr>PageSize = (case ns_PageSize n of None \<Rightarrow> PageSize p | Some v \<Rightarrow> v),
      StartIndex = (case ns_StartIndex n of None \<Rightarrow> StartIndex p | Some v \<Rightarrow> v),
      search = (case ns_search n of None \<Rightarrow> search p | Some v \<Rightarrow> v),
      filter' = (case ns_filter n of None \<Rightarrow> filter' p | Some v \<Rightarrow> v)\<rparr>"

text \<open>The object \<open>parameters\<close> itself passed as \<open>newState\<close>.\<close>

definition asNewState :: "CollectionLoadParameters \<Rightarrow> NewState" where
  "asNewState p =
     \<lparr>ns_PageSize = Some (PageSize p), ns_StartIndex = Some (StartIndex p),
      ns_search = Some (search p), ns_filter = Some (filter' p)\<rparr>"

text \<open>\<open>Array.prototype.map\<close> with a callback that may throw: the first throw ends it.\<close>

fun mapE :: "('a \<Rightarrow> Error + 'b) \<Rightarrow> 'a list \<Rightarrow> Error + 'b list" where
  "mapE f [] = Inr []"
| "mapE f (x # xs) =
     (case f x of
        Inl e \<Rightarrow> Inl e
      | Inr y \<Rightarrow> (case mapE f xs of Inl e \<Rightarrow> Inl e | Inr ys \<Rightarrow> Inr (y # ys)))"

subsection \<open>getValueStruct, equal\<close>

text \<open>The method \<open>equal\<close> is \<open>equalValue\<close> here.\<close>

definition getValueStruct :: "EditFkComponent \<Rightarrow> ValueStruct option" where
  "getValueStruct s =
     (if truthy (cc_value (columnContainer s))
      then Some \<lparr>DataValue = cc_value (columnContainer s),
                 DisplayValue = Some (if truthy (cc_displayValue (columnContainer s))
                                      then the (cc_displayValue (columnContainer s)) else []),
                 displayLong = None\<rparr>
      else None)"

text \<open>
  It is called with the control's value as well, which may be a string: a
  non-empty string is truthy and has neither a \<open>DataValue\<close> nor a \<open>DisplayValue\<close>
  property.
\<close>

fun isTruthy :: "ControlValue \<Rightarrow> bool" where
  "isTruthy Undefined = False"
| "isTruthy (Text t) = (t \<noteq> [])"
| "isTruthy (Struct v) = True"

fun propDataValue :: "ControlValue \<Rightarrow> string option" where
  "propDataValue (Struct v) = DataValue v"
| "propDataValue _ = None"

fun propDisplayValue :: "ControlValue \<Rightarrow> string option" where
  "propDisplayValue (Struct v) = DisplayValue v"
| "propDisplayValue _ = None"

definition equalValue :: "ControlValue \<Rightarrow> ControlValue \<Rightarrow> bool" where
  "equalValue v v2 =
     (if isTruthy v \<and> isTruthy v2
      then propDataValue v = propDataValue v2 \<and> propDisplayValue v = propDisplayValue v2
      else v = Undefined \<and> v2 = Undefined)"

subsection \<open>writeValue\<close>

definition writeValue :: "Externals \<Rightarrow> ValueStruct option \<Rightarrow> EditFkComponent \<Rightarrow> EditFkComponent" where
  "writeValue ext v s =
     (if \<not> canEdit (columnContainer s) \<or> equalValue (toControl (getValueStruct s)) (toControl v)
      then s
      else
        let s1 = s\<lparr>isWriting := True, loading := True\<rparr>;
            s2 = perform (UpdateValueStruct v) s1;
            s3 = (case updateValueStruct ext (columnContainer s2) v of
                    Inl error \<Rightarrow> perform (HandleError error) s2
                  | Inr cc \<Rightarrow>
                      let s4 = s2\<lparr>columnContainer := cc\<rparr>;
                          valueAfterWrite = toControl (getValueStruct s4);
                          s5 = (if \<not> equalValue (control_value s4) valueAfterWrite
                                then s4\<lparr>control_value := valueAfterWrite\<rparr> else s4);
                          s6 = s5\<lparr>control_dirty := True\<rparr>
                      in perform (Emit \<lparr>ev_value = toControl v, forceEmit = True\<rparr>) s6)
        in s3\<lparr>loading := False, isWriting := False\<rparr>)"

subsection \<open>updateCandidates\<close>

text \<open>The detail line of a candidate: \<open>LongDisplay ?? ''\<close>, replaced by the value of the
  column \<open>DefaultEmailAddress\<close> when the row has it and the selected table is \<open>Person\<close>.\<close>

definition detailValue :: "IForeignKeyInfo \<Rightarrow> EntityData \<Rightarrow> string option" where
  "detailValue table entityData =
     (let defaultEmailColumn = (case Columns entityData of
                                  None \<Rightarrow> None
                                | Some cols \<Rightarrow> cols ''DefaultEmailAddress'')
      in case defaultEmailColumn of
           Some c \<Rightarrow>
             if TableName table = ''Person'' then Value c
             else Some (case LongDisplay entityData of None \<Rightarrow> [] | Some d \<Rightarrow> d)
         | None \<Rightarrow> Some (case LongDisplay entityData of None \<Rightarrow> [] | Some d \<Rightarrow> d))"

text \<open>\<open>keys && keys.length ? keys[0] : ''\<close>\<close>

definition primaryKey :: "EntityData \<Rightarrow> string" where
  "primaryKey entityData =
     (case Keys entityData of None \<Rightarrow> [] | Some [] \<Rightarrow> [] | Some (k # _) \<Rightarrow> k)"

text \<open>
  The key computed by the callback of \<open>Entities.map\<close>. In the branch of a single
  relation, \<open>fkRelations[0].ColumnName\<close> is evaluated only when the row has \<open>Columns\<close>;
  it throws a TypeError when there is no relation at all.
\<close>

definition candidateKey :: "IForeignKeyInfo list option \<Rightarrow> EntityData \<Rightarrow> Error + string option" where
  "candidateKey rels entityData =
     (let multipleFkRelations = (case rels of None \<Rightarrow> False | Some r \<Rightarrow> length r > 1)
      in if multipleFkRelations
         then (let xObjectKeyColumn = (case Columns entityData of
                                         None \<Rightarrow> None
                                       | Some cols \<Rightarrow> cols ''XObjectKey'')
               in Inr (case xObjectKeyColumn of Some c \<Rightarrow> Value c | None \<Rightarrow> None))
         else (case Columns entityData of
                 None \<Rightarrow> Inr (Some (primaryKey entityData))
               | Some cols \<Rightarrow>
                   (case rels of
                      None \<Rightarrow> Inl TypeError
                    | Some [] \<Rightarrow> Inl TypeError
                    | Some (r # _) \<Rightarrow>
                        (case cols (ColumnName r) of
                           Some parentColumn \<Rightarrow> Inr (Value parentColumn)
                         | None \<Rightarrow> Inr (Some (primaryKey entityData))))))"

definition toCandidate :: "IForeignKeyInfo list option \<Rightarrow> IForeignKeyInfo \<Rightarrow> EntityData \<Rightarrow> Error + Candidate" where
  "toCandidate rels table entityData =
     (case candidateKey rels entityData of
        Inl e \<Rightarrow> Inl e
      | Inr k \<Rightarrow> Inr \<lparr>DataValue = k, DisplayValue = Display entityData,
                      displayLong = detailValue table entityData\<rparr>)"

text \<open>\<open>candidateCollection.Entities?.map(...)\<close> followed by \<open>newCandidates || []\<close>.\<close>

definition newCandidates :: "IForeignKeyInfo list option \<Rightarrow> IForeignKeyInfo \<Rightarrow> EntityCollectionData \<Rightarrow> Error + Candidate list" where
  "newCandidates rels table coll =
     (case Entities coll of None \<Rightarrow> Inr [] | Some es \<Rightarrow> mapE (toCandidate rels table) es)"

text \<open>
  \<open>updateCandidates(newState, isCheck, concatCandidates)\<close>. There is no \<open>catch\<close>: a
  rejected \<open>Get\<close>, a throwing callback or \<open>push\<close> on a missing list leave through
  \<open>finally\<close>, which resets \<open>loading\<close>. \<open>isCheck\<close> only decides on a change detection.
\<close>

definition updateCandidates :: "Externals \<Rightarrow> NewState \<Rightarrow> bool \<Rightarrow> bool \<Rightarrow> EditFkComponent \<Rightarrow> Error option \<times> EditFkComponent" where
  "updateCandidates ext newState isCheck concatCandidates s =
     (case selectedTable s of
        None \<Rightarrow> (None, s)
      | Some table \<Rightarrow>
          let s1 = s\<lparr>loading := True\<rparr>;
              s2 = assignParameters (spread (parameters s1) newState) s1;
              s3 = perform (GetCandidates table (parameters s2)) s2;
              r = (case Get ext table (parameters s3) of
                     Inl e \<Rightarrow> (Some e, s3)
                   | Inr None \<Rightarrow> (None, s3)
                   | Inr (Some coll) \<Rightarrow>
                       let s4 = s3\<lparr>candidatesTotalCount := Some (TotalCount coll),
                                   isHierarchical := Some (Hierarchy coll \<noteq> None)\<rparr>
                       in (case newCandidates (fkRelations (columnContainer s4)) table coll of
                             Inl e \<Rightarrow> (Some e, s4)
                           | Inr new \<Rightarrow>
                               if concatCandidates
                               then (case candidates s4 of
                                       None \<Rightarrow> (Some TypeError, s4)
                                     | Some cs \<Rightarrow>
                                         (None, s4\<lparr>candidates := Some (cs @ new),
                                                    savedCandidates := Some (cs @ new)\<rparr>))
                               else (None, s4\<lparr>candidates := Some new,
                                               savedCandidates := Some new\<rparr>)))
          in (fst r, (snd r)\<lparr>loading := False\<rparr>))"

subsection \<open>onScroll, search, initCandidates\<close>

record ScrollTarget =
  offsetHeight :: real
  scrollTop :: real
  scrollHeight :: real

definition onScroll :: "Externals \<Rightarrow> ScrollTarget \<Rightarrow> EditFkComponent \<Rightarrow> Error option \<times> EditFkComponent" where
  "onScroll ext target s =
     (if offsetHeight target + scrollTop target \<ge> scrollHeight target - 10
         \<and> \<not> loading s
         \<and> (case candidatesTotalCount s of
               None \<Rightarrow> False
             | Some count \<Rightarrow> count > pageSize + StartIndex (parameters s))
      then let s1 = s\<lparr>parameters := (parameters s)\<lparr>StartIndex := StartIndex (parameters s) + pageSize\<rparr>\<rparr>
           in updateCandidates ext (asNewState (parameters s1)) False True s1
      else (None, s))"

definition search' :: "Externals \<Rightarrow> string option \<Rightarrow> EditFkComponent \<Rightarrow> Error option \<times> EditFkComponent" where
  "search' ext keyword s =
     (let s1 = s\<lparr>parameters := (parameters s)\<lparr>StartIndex := 0\<rparr>\<rparr>
      in updateCandidates ext
           \<lparr>ns_PageSize = None, ns_StartIndex = None, ns_search = Some keyword, ns_filter = None\<rparr>
           True False s1)"

definition initCandidates :: "Externals \<Rightarrow> EditFkComponent \<Rightarrow> Error option \<times> EditFkComponent" where
  "initCandidates ext s =
     (if canEdit (columnContainer s)
      then updateCandidates ext
             \<lparr>ns_PageSize = Some pageSize, ns_StartIndex = Some 0,
              ns_search = Some None, ns_filter = Some None\<rparr>
             True False s
      else (None, s))"

subsection \<open>removeAssignment, optionSelected, the dialog\<close>

text \<open>The object literal \<open>{ DataValue: undefined }\<close>.\<close>

definition emptyValue :: ValueStruct where
  "emptyValue = \<lparr>DataValue = None, DisplayValue = None, displayLong = None\<rparr>"

definition removeAssignment :: "Externals \<Rightarrow> EditFkComponent \<Rightarrow> Error option \<times> EditFkComponent" where
  "removeAssignment ext s =
     (let s1 = s\<lparr>control_value := Struct emptyValue\<rparr>;
          s2 = writeValue ext (Some emptyValue) s1
      in if truthy (search (parameters s2)) \<or> filter' (parameters s2) \<noteq> None
         then let s3 = s2\<lparr>parameters := (parameters s2)\<lparr>StartIndex := 0\<rparr>\<rparr>
              in updateCandidates ext
                   \<lparr>ns_PageSize = None, ns_StartIndex = None,
                    ns_search = Some None, ns_filter = Some None\<rparr>
                   True False s3
         else (None, s2))"

definition optionSelected :: "Externals \<Rightarrow> ValueStruct option \<Rightarrow> EditFkComponent \<Rightarrow> EditFkComponent" where
  "optionSelected ext v s = writeValue ext v s"

record ForeignKeySelection =
  sel_table :: IForeignKeyInfo
  sel_candidates :: "Candidate list option"

text \<open>The subscriber of \<open>dialogRef.afterClosed()\<close> in \<open>editAssignment\<close>; the selection is
  what the dialog returned, nothing on cancel.\<close>

definition afterClosed :: "Externals \<Rightarrow> ForeignKeySelection option \<Rightarrow> EditFkComponent \<Rightarrow> EditFkComponent" where
  "afterClosed ext selection s =
     (case selection of
        None \<Rightarrow> s
      | Some sel \<Rightarrow>
          let s1 = s\<lparr>candidates := None, selectedTable := Some (sel_table sel)\<rparr>
          in if \<not> canEdit (columnContainer s1) then s1
             else let v = (case sel_candidates sel of
                             Some (c # _) \<Rightarrow> c
                           | _ \<Rightarrow> emptyValue)
                  in writeValue ext (Some v) (s1\<lparr>control_value := Struct v\<rparr>))"

text \<open>\<open>editAssignment\<close> reads \<open>this.selectedTable.TableName\<close> to open the dialog, which
  throws when no table is selected.\<close>

definition editAssignment :: "Externals \<Rightarrow> ForeignKeySelection option \<Rightarrow> EditFkComponent \<Rightarrow> Error option \<times> EditFkComponent" where
  "editAssignment ext selection s =
     (case selectedTable s of
        None \<Rightarrow> (Some TypeError, s)
      | Some _ \<Rightarrow> (None, afterClosed ext selection s))"

subsection \<open>setControlValue, onOpened, close\<close>

text \<open>\<open>fkRelations.find(fkr => fkr.TableName === dbObjectKey.TableName)\<close> is \<open>find\<close> of
  the list library.\<close>

definition setControlValue :: "Externals \<Rightarrow> EditFkComponent \<Rightarrow> Error option \<times> EditFkComponent" where
  "setControlValue ext s =
     (let cc = columnContainer s;
          r = (case fkRelations cc of
                 Some (r0 # rs) \<Rightarrow>
                   (case (if length (r0 # rs) > 1 \<and> truthy (cc_value cc)
                          then (case FromXml ext (the (cc_value cc)) of
                                  Inl e \<Rightarrow> Inl e
                                | Inr dbObjectKey \<Rightarrow>
                                    Inr (find (\<lambda>fkr. TableName fkr = key_TableName dbObjectKey) (r0 # rs)))
                          else Inr None) of
                      Inl e \<Rightarrow> Inl e
                    | Inr table \<Rightarrow>
                        Inr (perform (UpdateNonExisting (map TableName (r0 # rs)))
                               (s\<lparr>selectedTable := Some (case table of Some t \<Rightarrow> t | None \<Rightarrow> r0)\<rparr>)))
               | _ \<Rightarrow> Inr s)
      in case r of
           Inl e \<Rightarrow> (Some e, s)
         | Inr s1 \<Rightarrow>
             (None, s1\<lparr>control_value := toControl (getValueStruct s1),
                       control_validators := (if isValueRequired cc \<and> canEdit cc
                                              then [Required, CheckAutocomplete]
                                              else [CheckAutocomplete])\<rparr>))"

definition onOpened :: "Externals \<Rightarrow> EditFkComponent \<Rightarrow> Error option \<times> EditFkComponent" where
  "onOpened ext s =
     (let s1 = (case savedParameters s of
                  NotSaved \<Rightarrow>
                    assignParameters \<lparr>PageSize = pageSize, StartIndex = 0, search = None, filter' = None\<rparr> s
                | SameObject \<Rightarrow> s
                | OtherObject p \<Rightarrow> s\<lparr>parameters := p, savedParameters := SameObject\<rparr>)
      in if (case savedCandidates s1 of None \<Rightarrow> False | Some cs \<Rightarrow> cs \<noteq> [])
         then (None, s1\<lparr>candidates := savedCandidates s1\<rparr>)
         else if truthy (search (parameters s1)) \<or> filter' (parameters s1) \<noteq> None
                 \<or> control_value s1 = Undefined
         then updateCandidates ext
                \<lparr>ns_PageSize = None, ns_StartIndex = Some 0,
                 ns_search = Some None, ns_filter = Some None\<rparr>
                False False s1
         else (None, s1))"

definition close :: "EditFkComponent \<Rightarrow> EditFkComponent" where
  "close s =
     (let s1 = (if (case control_value s of Struct _ \<Rightarrow> False | _ \<Rightarrow> True)
                then s\<lparr>control_value := toControl (getValueStruct s)\<rparr> else s)
      in s1\<lparr>savedParameters := SameObject, savedCandidates := candidates s1\<rparr>)"

text \<open>The component as the constructor and the field initialisers leave it, bound to a
  column container.\<close>

definition initial :: "EntityColumnContainer \<Rightarrow> EditFkComponent" where
  "initial cc =
     \<lparr>control_value = Undefined, control_dirty = False, control_validators = [],
      columnContainer = cc, candidates = None, loading = False, selectedTable = None,
      isHierarchical = None, candidatesTotalCount = None,
      parameters = \<lparr>PageSize = pageSize, StartIndex = 0, search = None, filter' = None\<rparr>,
      savedParameters = NotSaved, savedCandidates = None, isWriting = False, effects = []\<rparr>"

subsection \<open>The subscriptions of the constructor and of bind, inputFocus\<close>

text \<open>The subscriber of \<open>control.valueChanges\<close>, run after the debounce time with the
  value the control then holds.\<close>

definition valueChanges :: "Externals \<Rightarrow> ControlValue \<Rightarrow> EditFkComponent \<Rightarrow> Error option \<times> EditFkComponent" where
  "valueChanges ext keyword s =
     (let s1 = s\<lparr>control_value := keyword\<rparr>
      in case keyword of
           Struct _ \<Rightarrow> (None, s1)
         | Undefined \<Rightarrow> search' ext None s1
         | Text t \<Rightarrow> search' ext (Some t) s1)"

definition inputFocus :: "Externals \<Rightarrow> EditFkComponent \<Rightarrow> Error option \<times> EditFkComponent" where
  "inputFocus ext s =
     (if (case candidates s of None \<Rightarrow> True | Some cs \<Rightarrow> cs = []) \<and> \<not> loading s
      then initCandidates ext s
      else (None, s))"

definition ngOnInit_fk :: "Externals \<Rightarrow> EditFkComponent \<Rightarrow> Error option \<times> EditFkComponent" where
  "ngOnInit_fk ext s = initCandidates ext s"

text \<open>The subscriber of the entity change event; the column container then shows the
  column as it has become.\<close>

definition entityChanged :: "Externals \<Rightarrow> EntityColumnContainer \<Rightarrow> EditFkComponent \<Rightarrow> Error option \<times> EditFkComponent" where
  "entityChanged ext cc s =
     (let s0 = s\<lparr>columnContainer := cc\<rparr>
      in if isWriting s0 then (None, s0)
         else
           let r = (if propDataValue (control_value s0) \<noteq> cc_value cc
                    then let r1 = setControlValue ext (s0\<lparr>loading := True, candidates := Some []\<rparr>)
                         in (fst r1, (snd r1)\<lparr>loading := False\<rparr>)
                    else (None, s0))
           in case fst r of
                Some e \<Rightarrow> r
              | None \<Rightarrow>
                  (None, perform (Emit \<lparr>ev_value = control_value (snd r), forceEmit = False\<rparr>) (snd r)))"

text \<open>The subscriber of \<open>updateRequested\<close>.\<close>

definition updateRequested :: "Externals \<Rightarrow> EditFkComponent \<Rightarrow> Error option \<times> EditFkComponent" where
  "updateRequested ext s =
     (let r1 = setControlValue ext (s\<lparr>loading := True\<rparr>);
          r2 = (case fst r1 of Some e \<Rightarrow> r1 | None \<Rightarrow> initCandidates ext (snd r1));
          s3 = (snd r2)\<lparr>loading := False\<rparr>
      in case fst r2 of
           Some e \<Rightarrow> (Some e, s3)
         | None \<Rightarrow> (None, perform (Emit \<lparr>ev_value = control_value s3, forceEmit = False\<rparr>) s3))"

text \<open>\<open>bind(cdref)\<close>: nothing but a log entry without a column, else the container is
  initialised and the control value set.\<close>

definition bind' :: "Externals \<Rightarrow> EntityColumnContainer option \<Rightarrow> EditFkComponent \<Rightarrow> Error option \<times> EditFkComponent" where
  "bind' ext cdref s =
     (case cdref of
        None \<Rightarrow> (None, s)
      | Some cc \<Rightarrow> setControlValue ext (s\<lparr>columnContainer := cc\<rparr>))"

subsection \<open>Histories of the component\<close>

text \<open>
  Everything that can happen to the component: the user's input putting a value into
  the control, the calls of the public methods and of the subscribers. Each handler runs
  to its end before the next one starts; a handler that throws leaves the state it had
  reached. The answers of the collaborators may differ from event to event.
\<close>

datatype Event =
    Typed ControlValue
  | Bind "EntityColumnContainer option"
  | NgOnInit
  | InputFocus
  | OnOpened
  | OptionSelected "ValueStruct option"
  | RemoveAssignment
  | Close
  | EditAssignment "ForeignKeySelection option"
  | EntityChanged EntityColumnContainer
  | UpdateRequested
  | ValueChanges ControlValue
  | Scroll ScrollTarget

fun handle :: "Externals \<Rightarrow> Event \<Rightarrow> EditFkComponent \<Rightarrow> EditFkComponent" where
  "handle ext (Typed v) s = s\<lparr>control_value := v\<rparr>"
| "handle ext (Bind cdref) s = snd (bind' ext cdref s)"
| "handle ext NgOnInit s = snd (ngOnInit_fk ext s)"
| "handle ext InputFocus s = snd (inputFocus ext s)"
| "handle ext OnOpened s = snd (onOpened ext s)"
| "handle ext (OptionSelected v) s = optionSelected ext v s"
| "handle ext RemoveAssignment s = snd (removeAssignment ext s)"
| "handle ext Close s = close s"
| "handle ext (EditAssignment selection) s = snd (editAssignment ext selection s)"
| "handle ext (EntityChanged cc) s = snd (entityChanged ext cc s)"
| "handle ext UpdateRequested s = snd (updateRequested ext s)"
| "handle ext (ValueChanges keyword) s = snd (valueChanges ext keyword s)"
| "handle ext (Scroll target) s = snd (onScroll ext target s)"

fun history :: "(Externals \<times> Event) list \<Rightarrow> EditFkComponent \<Rightarrow> EditFkComponent" where
  "history [] s = s"
| "history ((ext, ev) # evs) s = history evs (handle ext ev s)"

definition active :: "CollectionLoadParameters \<Rightarrow> bool" where
  "active p = (truthy (search p) \<or> filter' p \<noteq> None)"

text \<open>Without a selected table nothing was ever fetched: no total count is known and no
  search or filter is set, in the live parameters or in the saved ones.\<close>

definition tableKnown :: "EditFkComponent \<Rightarrow> bool" where
  "tableKnown s =
     (selectedTable s = None \<longrightarrow>
        candidatesTotalCount s = None \<and> \<not> active (parameters s)
        \<and> (case savedParameters s of OtherObject p \<Rightarrow> \<not> active p | _ \<Rightarrow> True))"

section \<open>Bulk decision rows (WorkflowMultiActionComponent)\<close>

subsection \<open>Data\<close>

text \<open>An entity column is known here by its name only.\<close>

datatype IEntityColumn = IEntityColumn string

datatype ColumnDependentReference = BaseReadonlyCdr IEntityColumn | BaseCdr IEntityColumn

text \<open>
  Modelled from the spec: the declaration of the enum \<open>BulkItemStatus\<close> (library
  \<open>qbm\<close>) is not among the sources. The spec gives the status the values
  \<open>unknown\<close> and \<open>valid\<close>, the two members the component assigns;
  \<open>otherStatus\<close> stands for any further member the declaration may have.
\<close>

datatype BulkItemStatus = valid | unknown | otherStatus

text \<open>
  What \<open>buildSingleItem\<close> reads from an \<open>Approval\<close>: \<open>orderStateDisplay\<close> is
  \<open>OrderState.Column.GetDisplayValue()\<close>, \<open>ValidFrom\<close> and \<open>ValidUntil\<close> are the
  columns of these properties, \<open>hasUpdateDirectDecisionTarget\<close> tells whether the
  optional method \<open>updateDirectDecisionTarget\<close> is there.
\<close>

record Approval =
  key :: string
  orderStateDisplay :: string
  ValidFrom :: IEntityColumn
  ValidUntil :: IEntityColumn
  pwoData :: string
  parameterColumns :: "IEntityColumn list option"
  hasUpdateDirectDecisionTarget :: bool

record ShowValidDate =
  validFrom :: bool
  validUntil :: bool

type_synonym TypedEntity = string

record Workflow =
  title :: string
  placeholder :: string
  workflow_data :: "string \<rightharpoonup> TypedEntity list"

record WorkflowActionEdit =
  requests :: "Approval list"
  showValidDate :: "ShowValidDate option"
  approve :: bool
  workflow :: "Workflow option"

text \<open>A call \<open>item.updateDirectDecisionTarget(entity)\<close> on the approval with the given
  key.\<close>

datatype TargetCall = UpdateDirectDecisionTarget string TypedEntity

record CustomSelectProperty =
  csp_title :: string
  csp_placeholder :: string
  csp_entities :: "TypedEntity list option"
  selectionChange :: "TypedEntity \<Rightarrow> TargetCall list"

record BulkItem =
  entity :: Approval
  additionalInfo :: string
  properties :: "ColumnDependentReference list"
  status :: BulkItemStatus
  customSelectProperties :: "CustomSelectProperty list option"
  item_valid :: "bool option"

record ParameterCategoryColumn =
  column :: IEntityColumn

record ExtendedEntityWrapper =
  parameterCategoryColumns :: "ParameterCategoryColumn list"

text \<open>The two injected services: the step service answers at once, the approval service
  with a promise that may be rejected.\<close>

record Services =
  getCurrentStepCdr :: "Approval \<Rightarrow> ColumnDependentReference option"
  getExtendedEntity :: "string \<Rightarrow> Error + ExtendedEntityWrapper"

datatype BusyCall = BeginBusy | EndBusy

record WorkflowMultiActionComponent =
  data :: WorkflowActionEdit
  bulk_requests :: "BulkItem list option"
  busyService :: "BusyCall list"

subsection \<open>buildSingleItem, ngOnInit, validateItem\<close>

definition buildSingleItem :: "Services \<Rightarrow> WorkflowActionEdit \<Rightarrow> Approval \<Rightarrow> Error + BulkItem" where
  "buildSingleItem srv d item =
     (let p1 = (case showValidDate d of
                  None \<Rightarrow> []
                | Some svd \<Rightarrow>
                    (if validFrom svd then [BaseReadonlyCdr (ValidFrom item)] else [])
                    @ (if validUntil svd then [BaseReadonlyCdr (ValidUntil item)] else []));
          p2 = (case getCurrentStepCdr srv item of None \<Rightarrow> p1 | Some step \<Rightarrow> step # p1);
          p3 = (case parameterColumns item of
                  None \<Rightarrow> Inr p2
                | Some _ \<Rightarrow>
                    (case getExtendedEntity srv (key item) of
                       Inl e \<Rightarrow> Inl e
                     | Inr entityWrapper \<Rightarrow>
                         let interactiveColumns = map column (parameterCategoryColumns entityWrapper)
                         in Inr (p2 @ map (\<lambda>pCol. if approve d then BaseCdr pCol
                                                    else BaseReadonlyCdr pCol)
                                        interactiveColumns)))
      in case p3 of
           Inl e \<Rightarrow> Inl e
         | Inr props \<Rightarrow>
             Inr \<lparr>entity = item,
                  additionalInfo = orderStateDisplay item,
                  properties = props,
                  status = valid,
                  customSelectProperties =
                    (case workflow d of
                       None \<Rightarrow> None
                     | Some w \<Rightarrow>
                         Some [\<lparr>csp_title = title w,
                                 csp_placeholder = placeholder w,
                                 csp_entities = workflow_data w (key item),
                                 selectionChange =
                                   (\<lambda>e. if hasUpdateDirectDecisionTarget item
                                        then [UpdateDirectDecisionTarget (key item) e]
                                        else [])\<rparr>]),
                  item_valid = None\<rparr>)"

text \<open>
  \<open>Promise.all\<close> over the promises of \<open>buildSingleItem\<close>: the array of results in the
  order of the input when every promise is fulfilled, a rejection otherwise. The builds
  do not depend on each other; of several rejections the one of the earliest request is
  reported here.
\<close>

definition promiseAll :: "(Error + 'a) list \<Rightarrow> Error + 'a list" where
  "promiseAll ps = mapE (\<lambda>p. p) ps"

definition ngOnInit :: "Services \<Rightarrow> WorkflowMultiActionComponent \<Rightarrow> Error option \<times> WorkflowMultiActionComponent" where
  "ngOnInit srv c =
     (let c1 = c\<lparr>busyService := busyService c @ [BeginBusy]\<rparr>;
          r = (case promiseAll (map (buildSingleItem srv (data c1)) (requests (data c1))) of
                 Inl e \<Rightarrow> (Some e, c1)
               | Inr items \<Rightarrow> (None, c1\<lparr>bulk_requests := Some items\<rparr>))
      in (fst r, (snd r)\<lparr>busyService := busyService (snd r) @ [EndBusy]\<rparr>))"

definition validateItem :: "BulkItem \<Rightarrow> BulkItem" where
  "validateItem bulkItem =
     bulkItem\<lparr>status := (if item_valid bulkItem = Some True then valid else unknown)\<rparr>"

text \<open>
  The bulk editor sets the flag \<open>valid\<close> of an item and raises
  \<open>validationStateChanged\<close>, on which the template calls \<open>validateItem\<close>. A history of
  these calls is the list of the values the flag had at each call (\<open>None\<close> when the
  item had no such property); between the calls nothing in this component assigns the
  status.
\<close>

fun validations :: "bool option list \<Rightarrow> BulkItem \<Rightarrow> BulkItem" where
  "validations [] bulkItem = bulkItem"
| "validations (b # bs) bulkItem = validations bs (validateItem (bulkItem\<lparr>item_valid := b\<rparr>))"

section \<open>Concrete inputs\<close>

text \<open>A column pointing to the table \<open>Person\<close>, and a server that stores the key it is
  given, formats the display of the identity \<open>p2\<close> its own way, and serves 21 candidates
  in pages.\<close>

definition relPerson :: IForeignKeyInfo where
  "relPerson = \<lparr>TableName = ''Person'', ColumnName = ''UID_Person''\<rparr>"

definition relDepartment :: IForeignKeyInfo where
  "relDepartment = \<lparr>TableName = ''Department'', ColumnName = ''UID_Department''\<rparr>"

definition exColumn :: EntityColumnContainer where
  "exColumn = \<lparr>cc_value = Some ''p1'', cc_displayValue = Some ''Jo Smith'', canEdit = True,
               isValueRequired = False, fkRelations = Some [relPerson]\<rparr>"

definition exRow :: "string \<Rightarrow> string \<Rightarrow> EntityData" where
  "exRow k d = \<lparr>Display = Some d, LongDisplay = None,
                Columns = Some [''UID_Person'' \<mapsto> \<lparr>Value = Some k\<rparr>],
                Keys = Some [k]\<rparr>"

definition exExternals :: Externals where
  "exExternals =
     \<lparr>updateValueStruct =
        (\<lambda>cc v. Inr (cc\<lparr>cc_value := (case v of None \<Rightarrow> None | Some x \<Rightarrow> DataValue x),
                         cc_displayValue := (case v of None \<Rightarrow> None | Some x \<Rightarrow>
                            if DataValue x = Some ''p2'' then Some ''Lee, Kim'' else DisplayValue x)\<rparr>)),
      Get = (\<lambda>t p. Inr (Some \<lparr>TotalCount = 21,
                                Entities = Some (if StartIndex p = 20 then [exRow ''p21'' ''Ann Roe'']
                                                 else [exRow ''p1'' ''Jo Smith'']),
                                Hierarchy = None\<rparr>)),
      FromXml = (\<lambda>x. if x = ''<Key><T>Department</T><P>d7</P></Key>''
                     then Inr \<lparr>key_TableName = ''Department''\<rparr>
                     else Inl (Rejected ''no object key''))\<rparr>"

definition failingExternals :: Externals where
  "failingExternals = exExternals\<lparr>updateValueStruct := (\<lambda>cc v. Inl (Rejected ''denied''))\<rparr>"

definition exComponent :: EditFkComponent where
  "exComponent = snd (bind' exExternals (Some exColumn) (initial exColumn))"

definition readOnlyComponent :: EditFkComponent where
  "readOnlyComponent =
     snd (bind' exExternals (Some (exColumn\<lparr>canEdit := False\<rparr>)) (initial exColumn))"

definition joSmith :: ValueStruct where
  "joSmith = \<lparr>DataValue = Some ''p1'', DisplayValue = Some ''Jo Smith'',
              displayLong = Some ''jo.smith@example.com''\<rparr>"

definition kimLee :: ValueStruct where
  "kimLee = \<lparr>DataValue = Some ''p2'', DisplayValue = Some ''Kim Lee'',
             displayLong = Some ''kim.lee@example.com''\<rparr>"

definition scrolledComponent :: EditFkComponent where
  "scrolledComponent = history [(exExternals, NgOnInit), (exExternals, OnOpened)] exComponent"

definition searchingComponent :: EditFkComponent where
  "searchingComponent =
     history [(exExternals, Bind (Some exColumn)), (exExternals, ValueChanges (Text ''jo''))]
       (initial exColumn)"

definition nearBottom :: ScrollTarget where
  "nearBottom = \<lparr>offsetHeight = 200, scrollTop = 395, scrollHeight = 600\<rparr>"

text \<open>A column that may point to a person or to a department, holding the object key of
  a department; rows as the server sends them, with and without columns.\<close>

definition dynamicColumn :: EntityColumnContainer where
  "dynamicColumn =
     \<lparr>cc_value = Some ''<Key><T>Department</T><P>d7</P></Key>'', cc_displayValue = Some ''Sales'',
      canEdit = True, isValueRequired = False, fkRelations = Some [relPerson, relDepartment]\<rparr>"

definition bareRow :: EntityData where
  "bareRow = \<lparr>Display = Some ''Ann Roe'', LongDisplay = None, Columns = None,
              Keys = Some [''k1'', ''k2'']\<rparr>"

definition keyedRow :: EntityData where
  "keyedRow = \<lparr>Display = Some ''Sales'', LongDisplay = Some ''Sales department'',
               Columns = Some [''XObjectKey'' \<mapsto> \<lparr>Value = Some ''<Key><T>Department</T><P>d7</P></Key>''\<rparr>],
               Keys = Some [''d7'']\<rparr>"

text \<open>Three approval requests and services of which the approval service knows nothing
  of the request \<open>r3\<close>.\<close>

definition exServices :: Services where
  "exServices =
     \<lparr>getCurrentStepCdr = (\<lambda>a. if key a = ''r1''
                                then Some (BaseReadonlyCdr (IEntityColumn ''DecisionLevel''))
                                else None),
      getExtendedEntity = (\<lambda>k. if k = ''r3'' then Inl (Rejected ''not found'')
                                else Inr \<lparr>parameterCategoryColumns =
                                            [\<lparr>column = IEntityColumn ''Reason''\<rparr>]\<rparr>)\<rparr>"

definition exApproval :: "string \<Rightarrow> Approval" where
  "exApproval k =
     \<lparr>key = k, orderStateDisplay = ''Request'', ValidFrom = IEntityColumn ''ValidFrom'',
      ValidUntil = IEntityColumn ''ValidUntil'', pwoData = [], parameterColumns = Some [],
      hasUpdateDirectDecisionTarget = False\<rparr>"

definition exData :: "Approval list \<Rightarrow> WorkflowActionEdit" where
  "exData rs = \<lparr>requests = rs, showValidDate = Some \<lparr>validFrom = True, validUntil = False\<rparr>,
                approve = True, workflow = None\<rparr>"

definition exBulk :: "Approval list \<Rightarrow> WorkflowMultiActionComponent" where
  "exBulk rs = \<lparr>data = exData rs, bulk_requests = None, busyService = []\<rparr>"

lemmas ex_defs = relPerson_def relDepartment_def exColumn_def exRow_def exExternals_def
  failingExternals_def exComponent_def readOnlyComponent_def joSmith_def kimLee_def
  scrolledComponent_def searchingComponent_def nearBottom_def dynamicColumn_def bareRow_def
  keyedRow_def

lemmas bulk_ex_defs = exServices_def exApproval_def exData_def exBulk_def

lemmas fk_defs = bind'_def setControlValue_def initial_def perform_def getValueStruct_def
  truthy_def toControl_def equalValue_def writeValue_def pageSize_def Let_def
  ngOnInit_fk_def initCandidates_def updateCandidates_def assignParameters_def
  spread_def newCandidates_def toCandidate_def candidateKey_def detailValue_def primaryKey_def
  onOpened_def valueChanges_def search'_def onScroll_def asNewState_def removeAssignment_def
  emptyValue_def active_def

section \<open>Properties of the foreign-key editor\<close>

subsection \<open>Writing a value\<close>

lemma equalValue_toControl_refl: "equalValue (toControl v) (toControl v)"
  by (cases v) (simp_all add: equalValue_def toControl_def)

lemma writeValue_frame:
  "parameters (writeValue ext v s) = parameters s"
  "selectedTable (writeValue ext v s) = selectedTable s"
  "savedParameters (writeValue ext v s) = savedParameters s"
  "candidatesTotalCount (writeValue ext v s) = candidatesTotalCount s"
  "candidates (writeValue ext v s) = candidates s"
  by (auto simp add: writeValue_def perform_def Let_def split: sum.splits)

text \<open>
  C1, as the code has it. Writing a value that is not equal to the current one through an
  editable column calls the entity update with the requested value. When the update
  succeeds, the column is re-read, the control is brought to the re-read value (it already
  is, or it is replaced), and exactly one \<open>valueHasChanged\<close> event with
  \<open>forceEmit\<close> follows the update call; the event carries the value that was requested.
  When the update throws, the error goes to the error handler, no event is raised and
  the control stays as it was. On both paths \<open>loading\<close> and \<open>isWriting\<close> end up
  false.
\<close>

theorem writeValue_new_value:
  assumes "canEdit (columnContainer s)"
    and "\<not> equalValue (toControl (getValueStruct s)) (toControl v)"
    and "s' = writeValue ext v s"
  shows "(updateValueStruct ext (columnContainer s) v = Inr cc \<longrightarrow>
            effects s' = effects s @ [UpdateValueStruct v,
                                      Emit \<lparr>ev_value = toControl v, forceEmit = True\<rparr>]
            \<and> columnContainer s' = cc
            \<and> control_value s' =
                (if equalValue (control_value s) (toControl (getValueStruct s'))
                 then control_value s else toControl (getValueStruct s'))
            \<and> equalValue (control_value s') (toControl (getValueStruct s')))
       \<and> (updateValueStruct ext (columnContainer s) v = Inl e \<longrightarrow>
            effects s' = effects s @ [UpdateValueStruct v, HandleError e]
            \<and> control_value s' = control_value s)
       \<and> \<not> loading s' \<and> \<not> isWriting s'"
  using assms
  by (auto simp add: writeValue_def perform_def Let_def getValueStruct_def
      equalValue_toControl_refl split: sum.splits)

theorem writeValue_new_value_witness:
  "canEdit (columnContainer exComponent)
   \<and> \<not> equalValue (toControl (getValueStruct exComponent)) (toControl (Some kimLee))
   \<and> effects (writeValue exExternals (Some kimLee) exComponent)
       = effects exComponent @ [UpdateValueStruct (Some kimLee),
                                Emit \<lparr>ev_value = Struct kimLee, forceEmit = True\<rparr>]
   \<and> effects (writeValue failingExternals (Some kimLee) exComponent)
       = effects exComponent @ [UpdateValueStruct (Some kimLee),
                                HandleError (Rejected ''denied'')]
   \<and> control_value (writeValue failingExternals (Some kimLee) exComponent)
       = control_value exComponent
   \<and> \<not> loading (writeValue exExternals (Some kimLee) exComponent)
   \<and> \<not> isWriting (writeValue failingExternals (Some kimLee) exComponent)"
proof -
  have editable: "canEdit (columnContainer exComponent)"
    by (simp add: ex_defs fk_defs)
  have new: "\<not> equalValue (toControl (getValueStruct exComponent)) (toControl (Some kimLee))"
    by (simp add: ex_defs fk_defs)
  have ok: "updateValueStruct exExternals (columnContainer exComponent) (Some kimLee)
              = Inr (exColumn\<lparr>cc_value := Some ''p2'', cc_displayValue := Some ''Lee, Kim''\<rparr>)"
    by (simp add: ex_defs fk_defs)
  have failed: "updateValueStruct failingExternals (columnContainer exComponent) (Some kimLee)
              = Inl (Rejected ''denied'')"
    by (simp add: ex_defs)
  show ?thesis
    using editable new
      writeValue_new_value [OF editable new refl, of exExternals
        "exColumn\<lparr>cc_value := Some ''p2'', cc_displayValue := Some ''Lee, Kim''\<rparr>"
        "Rejected ''denied''"]
      writeValue_new_value [OF editable new refl, of failingExternals exColumn "Rejected ''denied''"]
      ok failed
    by (simp add: toControl_def)
qed

text \<open>
  C1 as the claim words it fails: the server answers the write of \<open>Kim Lee\<close> with the
  display \<open>Lee, Kim\<close>; the control then holds the re-read value, and the one event that
  is raised carries the value as it was requested.
\<close>

theorem writeValue_event_counterexample:
  "canEdit (columnContainer exComponent)
   \<and> \<not> equalValue (toControl (getValueStruct exComponent)) (toControl (Some kimLee))
   \<and> getValueStruct (writeValue exExternals (Some kimLee) exComponent)
       = Some \<lparr>DataValue = Some ''p2'', DisplayValue = Some ''Lee, Kim'', displayLong = None\<rparr>
   \<and> effects (writeValue exExternals (Some kimLee) exComponent)
       = [UpdateNonExisting [''Person''], UpdateValueStruct (Some kimLee),
          Emit \<lparr>ev_value = Struct \<lparr>DataValue = Some ''p2'', DisplayValue = Some ''Kim Lee'',
                                    displayLong = Some ''kim.lee@example.com''\<rparr>,
                forceEmit = True\<rparr>]
   \<and> Emit \<lparr>ev_value = toControl (getValueStruct (writeValue exExternals (Some kimLee) exComponent)),
            forceEmit = True\<rparr>
       \<notin> set (effects (writeValue exExternals (Some kimLee) exComponent))"
  by (simp add: ex_defs fk_defs)

text \<open>
  C2. A value that \<open>equal\<close> finds equal to the current value of the column, as
  \<open>getValueStruct\<close> reads it (the same \<open>DataValue\<close> and the same \<open>DisplayValue\<close>,
  or both values missing), is not written: \<open>writeValue\<close> returns the component as it
  was, so there is no update call, no event, and the control value, the candidates and
  the flags are unchanged.
\<close>

theorem writeValue_equal_noop:
  assumes "equalValue (toControl (getValueStruct s)) (toControl v)"
  shows "writeValue ext v s = s"
  using assms by (simp add: writeValue_def)

theorem writeValue_equal_noop_witness:
  "equalValue (toControl (getValueStruct exComponent)) (toControl (Some joSmith))
   \<and> writeValue exExternals (Some joSmith) exComponent = exComponent
   \<and> effects (writeValue exExternals (Some joSmith) exComponent) = [UpdateNonExisting [''Person'']]"
proof -
  have same: "equalValue (toControl (getValueStruct exComponent)) (toControl (Some joSmith))"
    by (simp add: ex_defs fk_defs)
  have "effects exComponent = [UpdateNonExisting [''Person'']]"
    by (simp add: ex_defs fk_defs)
  with same writeValue_equal_noop [OF same, of exExternals] show ?thesis
    by simp
qed

text \<open>
  C10. With a column that is not editable, \<open>writeValue\<close> returns the component as it
  was, whatever the value. The subscriber of the dialog then takes over the table of the
  selection and drops the candidate list, and that is all: the control value, the
  column and the effects (no update call, no event) are as before.
\<close>

theorem writeValue_not_editable:
  assumes "\<not> canEdit (columnContainer s)"
  shows "writeValue ext v s = s
     \<and> afterClosed ext selection s =
         (case selection of
            None \<Rightarrow> s
          | Some sel \<Rightarrow> s\<lparr>candidates := None, selectedTable := Some (sel_table sel)\<rparr>)
     \<and> control_value (afterClosed ext selection s) = control_value s
     \<and> columnContainer (afterClosed ext selection s) = columnContainer s
     \<and> effects (afterClosed ext selection s) = effects s"
  using assms by (simp add: writeValue_def afterClosed_def split: option.splits)

theorem writeValue_not_editable_witness:
  "\<not> canEdit (columnContainer readOnlyComponent)
   \<and> writeValue exExternals (Some kimLee) readOnlyComponent = readOnlyComponent
   \<and> control_value (afterClosed exExternals
         (Some \<lparr>sel_table = relPerson, sel_candidates = Some [kimLee]\<rparr>) readOnlyComponent)
       = Struct \<lparr>DataValue = Some ''p1'', DisplayValue = Some ''Jo Smith'', displayLong = None\<rparr>
   \<and> effects (afterClosed exExternals
         (Some \<lparr>sel_table = relPerson, sel_candidates = Some [kimLee]\<rparr>) readOnlyComponent)
       = [UpdateNonExisting [''Person'']]"
proof -
  have ro: "\<not> canEdit (columnContainer readOnlyComponent)"
    by (simp add: ex_defs fk_defs)
  have before: "control_value readOnlyComponent
        = Struct \<lparr>DataValue = Some ''p1'', DisplayValue = Some ''Jo Smith'', displayLong = None\<rparr>
      \<and> effects readOnlyComponent = [UpdateNonExisting [''Person'']]"
    by (simp add: ex_defs fk_defs)
  from ro before
    writeValue_not_editable [OF ro, of exExternals "Some kimLee"
      "Some \<lparr>sel_table = relPerson, sel_candidates = Some [kimLee]\<rparr>"]
  show ?thesis by simp
qed

subsection \<open>Fetching candidates\<close>

lemma mapE_Inr_length: "mapE f xs = Inr ys \<Longrightarrow> length ys = length xs"
  by (induction xs arbitrary: ys) (auto split: sum.splits)

lemma mapE_Inr_nth: "mapE f xs = Inr ys \<Longrightarrow> i < length xs \<Longrightarrow> f (xs ! i) = Inr (ys ! i)"
proof (induction xs arbitrary: ys i)
  case Nil
  then show ?case by simp
next
  case (Cons x xs)
  then show ?case by (cases i) (auto split: sum.splits)
qed

lemma mapE_all_Inr: "(\<forall>x \<in> set xs. \<exists>y. f x = Inr y) \<Longrightarrow> \<exists>ys. mapE f xs = Inr ys"
  by (induction xs) (auto split: sum.splits)

lemma mapE_Inl: "x \<in> set xs \<Longrightarrow> f x = Inl e \<Longrightarrow> \<exists>e'. mapE f xs = Inl e'"
  by (induction xs) (auto split: sum.splits)

lemma mapE_map: "mapE (\<lambda>p. p) (map f xs) = mapE f xs"
  by (induction xs) (auto split: sum.splits)

lemma spread_asNewState: "spread p (asNewState p) = p"
  by (simp add: spread_def asNewState_def)

text \<open>With at least one relation the callback never throws.\<close>

lemma toCandidate_total:
  "\<exists>k. toCandidate (Some (r # rs)) table row
         = Inr \<lparr>DataValue = k, DisplayValue = Display row, displayLong = detailValue table row\<rparr>
       \<and> candidateKey (Some (r # rs)) row = Inr k"
  by (auto simp add: toCandidate_def candidateKey_def Let_def split: option.splits)

text \<open>What a call of \<open>updateCandidates\<close> does when a table is selected and the source
  answers with a collection whose rows can all be turned into candidates.\<close>

lemma updateCandidates_fetched:
  assumes "selectedTable s = Some table"
    and "Get ext table (spread (parameters s) n) = Inr (Some coll)"
    and "newCandidates (fkRelations (columnContainer s)) table coll = Inr new"
  shows "effects (snd (updateCandidates ext n chk cat s))
           = effects s @ [GetCandidates table (spread (parameters s) n)]"
    and "parameters (snd (updateCandidates ext n chk cat s)) = spread (parameters s) n"
    and "\<not> cat \<Longrightarrow> fst (updateCandidates ext n chk cat s) = None
           \<and> candidates (snd (updateCandidates ext n chk cat s)) = Some new"
    and "cat \<Longrightarrow> candidates s = Some cs \<Longrightarrow>
           fst (updateCandidates ext n chk cat s) = None
           \<and> candidates (snd (updateCandidates ext n chk cat s)) = Some (cs @ new)"
  using assms
  by (auto simp add: updateCandidates_def Let_def perform_def assignParameters_def
      split: SavedParameters.splits option.splits)

lemma updateCandidates_rows:
  assumes "selectedTable s = Some table"
    and "fkRelations (columnContainer s) = Some (r # rs)"
    and "Get ext table (spread (parameters s) n) = Inr (Some coll)"
    and "Entities coll = Some rows"
    and "i < length rows"
  shows "fst (updateCandidates ext n chk False s) = None
     \<and> (\<exists>cands. candidates (snd (updateCandidates ext n chk False s)) = Some cands
          \<and> length cands = length rows
          \<and> candidateKey (fkRelations (columnContainer s)) (rows ! i) = Inr (DataValue (cands ! i)))"
proof -
  have "\<forall>row \<in> set rows. \<exists>c. toCandidate (Some (r # rs)) table row = Inr c"
    using toCandidate_total by blast
  then obtain new where new: "mapE (toCandidate (Some (r # rs)) table) rows = Inr new"
    using mapE_all_Inr by blast
  then have nc: "newCandidates (fkRelations (columnContainer s)) table coll = Inr new"
    using assms(2,4) by (simp add: newCandidates_def)
  have len: "length new = length rows"
    using new by (rule mapE_Inr_length)
  have "toCandidate (Some (r # rs)) table (rows ! i) = Inr (new ! i)"
    using new assms(5) by (rule mapE_Inr_nth)
  with toCandidate_total [of r rs table "rows ! i"]
  have key: "candidateKey (Some (r # rs)) (rows ! i) = Inr (DataValue (new ! i))"
    by auto
  from updateCandidates_fetched(3) [OF assms(1) assms(3) nc, of False chk] len key assms(2)
  show ?thesis by simp
qed

text \<open>
  C3. The key of the candidate made from a fetched row. With a single relation it is the
  value of the row's column named by the relation's \<open>ColumnName\<close> when the row has that
  column, and otherwise the row's first primary key (the empty string when the row has no
  primary key). With more than one relation it is the value of the row's column
  \<open>XObjectKey\<close>, and undefined when the row has no such column. This key is the
  \<open>DataValue\<close> of the candidate at the row's position in the list that
  \<open>updateCandidates\<close> stores.
\<close>

theorem candidateKey_derivation:
  "(rels = Some [r] \<and> Columns row = Some cols \<and> cols (ColumnName r) = Some parentColumn \<longrightarrow>
      candidateKey rels row = Inr (Value parentColumn))
   \<and> (rels = Some [r]
       \<and> (Columns row = None \<or> Columns row = Some cols \<and> cols (ColumnName r) = None) \<longrightarrow>
      candidateKey rels row = Inr (Some (primaryKey row))
      \<and> (Keys row = Some (k # ks) \<longrightarrow> primaryKey row = k)
      \<and> (Keys row = None \<or> Keys row = Some [] \<longrightarrow> primaryKey row = []))
   \<and> (rels = Some rs \<and> length rs > 1
       \<and> Columns row = Some cols \<and> cols ''XObjectKey'' = Some xObjectKeyColumn \<longrightarrow>
      candidateKey rels row = Inr (Value xObjectKeyColumn))
   \<and> (rels = Some rs \<and> length rs > 1
       \<and> (Columns row = None \<or> Columns row = Some cols \<and> cols ''XObjectKey'' = None) \<longrightarrow>
      candidateKey rels row = Inr None)
   \<and> (selectedTable s = Some table \<and> fkRelations (columnContainer s) = Some (r0 # rs0)
       \<and> Get ext table (spread (parameters s) n) = Inr (Some coll)
       \<and> Entities coll = Some rows \<and> i < length rows \<longrightarrow>
      fst (updateCandidates ext n chk False s) = None
      \<and> (\<exists>cands. candidates (snd (updateCandidates ext n chk False s)) = Some cands
           \<and> length cands = length rows
           \<and> candidateKey (fkRelations (columnContainer s)) (rows ! i)
               = Inr (DataValue (cands ! i))))"
proof -
  have single_parent: "candidateKey rels row = Inr (Value parentColumn)"
    if "rels = Some [r]" "Columns row = Some cols" "cols (ColumnName r) = Some parentColumn"
    using that by (simp add: candidateKey_def)
  have single_primary: "candidateKey rels row = Inr (Some (primaryKey row))"
    if "rels = Some [r]"
      "Columns row = None \<or> Columns row = Some cols \<and> cols (ColumnName r) = None"
    using that by (auto simp add: candidateKey_def)
  have first_key: "primaryKey row = k" if "Keys row = Some (k # ks)"
    using that by (simp add: primaryKey_def)
  have no_key: "primaryKey row = []" if "Keys row = None \<or> Keys row = Some []"
    using that by (auto simp add: primaryKey_def)
  have multi_key: "candidateKey rels row = Inr (Value xObjectKeyColumn)"
    if "rels = Some rs" "length rs > 1" "Columns row = Some cols"
      "cols ''XObjectKey'' = Some xObjectKeyColumn"
    using that by (simp add: candidateKey_def)
  have multi_none: "candidateKey rels row = Inr None"
    if "rels = Some rs" "length rs > 1"
      "Columns row = None \<or> Columns row = Some cols \<and> cols ''XObjectKey'' = None"
    using that by (auto simp add: candidateKey_def)
  from single_parent single_primary first_key no_key multi_key multi_none
    updateCandidates_rows [of s table r0 rs0 ext n coll rows i chk]
  show ?thesis by blast
qed

theorem candidateKey_derivation_witness:
  "candidateKey (Some [relPerson]) (exRow ''p21'' ''Ann Roe'') = Inr (Some ''p21'')
   \<and> candidateKey (Some [relPerson]) bareRow = Inr (Some ''k1'')
   \<and> candidateKey (Some [relPerson, relDepartment]) keyedRow
       = Inr (Some ''<Key><T>Department</T><P>d7</P></Key>'')
   \<and> candidateKey (Some [relPerson, relDepartment]) bareRow = Inr None
   \<and> fst (updateCandidates exExternals (asNewState (parameters exComponent)) True False exComponent)
       = None
   \<and> map_option (map DataValue)
        (candidates (snd (updateCandidates exExternals (asNewState (parameters exComponent))
                            True False exComponent)))
       = Some [Some ''p1'']"
proof -
  have rows: "selectedTable exComponent = Some relPerson
      \<and> fkRelations (columnContainer exComponent) = Some (relPerson # [])
      \<and> Get exExternals relPerson (spread (parameters exComponent) (asNewState (parameters exComponent)))
          = Inr (Some \<lparr>TotalCount = 21, Entities = Some [exRow ''p1'' ''Jo Smith''], Hierarchy = None\<rparr>)
      \<and> Entities \<lparr>TotalCount = 21, Entities = Some [exRow ''p1'' ''Jo Smith''], Hierarchy = None\<rparr>
          = Some [exRow ''p1'' ''Jo Smith'']
      \<and> (0::nat) < length [exRow ''p1'' ''Jo Smith'']"
    by (simp add: ex_defs bind'_def setControlValue_def initial_def perform_def truthy_def
        spread_asNewState pageSize_def Let_def)
  have a: "Columns (exRow ''p21'' ''Ann Roe'') = Some [''UID_Person'' \<mapsto> \<lparr>Value = Some ''p21''\<rparr>]
      \<and> [''UID_Person'' \<mapsto> \<lparr>Value = Some ''p21''\<rparr>] (ColumnName relPerson)
          = Some \<lparr>Value = Some ''p21''\<rparr>"
    by (simp add: ex_defs)
  have b: "Columns bareRow = None \<and> Keys bareRow = Some (''k1'' # [''k2''])"
    by (simp add: ex_defs)
  have c: "length [relPerson, relDepartment] > 1
      \<and> Columns keyedRow
          = Some [''XObjectKey'' \<mapsto> \<lparr>Value = Some ''<Key><T>Department</T><P>d7</P></Key>''\<rparr>]
      \<and> [''XObjectKey'' \<mapsto> \<lparr>Value = Some ''<Key><T>Department</T><P>d7</P></Key>''\<rparr>] ''XObjectKey''
          = Some \<lparr>Value = Some ''<Key><T>Department</T><P>d7</P></Key>''\<rparr>"
    by (simp add: ex_defs)
  from a b c rows
    candidateKey_derivation [of "Some [relPerson]" relPerson "exRow ''p21'' ''Ann Roe''"
      "[''UID_Person'' \<mapsto> \<lparr>Value = Some ''p21''\<rparr>]" "\<lparr>Value = Some ''p21''\<rparr>"
      "''k1''" "[''k2'']" "[relPerson]" "\<lparr>Value = None\<rparr>"
      exComponent relPerson relPerson "[]" exExternals "asNewState (parameters exComponent)"
      "\<lparr>TotalCount = 21, Entities = Some [exRow ''p1'' ''Jo Smith''], Hierarchy = None\<rparr>"
      "[exRow ''p1'' ''Jo Smith'']" 0 True]
    candidateKey_derivation [of "Some [relPerson]" relPerson bareRow
      "Map.empty" "\<lparr>Value = None\<rparr>"
      "''k1''" "[''k2'']" "[relPerson]" "\<lparr>Value = None\<rparr>"
      exComponent relPerson relPerson "[]" exExternals "asNewState (parameters exComponent)"
      "\<lparr>TotalCount = 21, Entities = Some [exRow ''p1'' ''Jo Smith''], Hierarchy = None\<rparr>"
      "[exRow ''p1'' ''Jo Smith'']" 0 True]
    candidateKey_derivation [of "Some [relPerson, relDepartment]" relPerson keyedRow
      "[''XObjectKey'' \<mapsto> \<lparr>Value = Some ''<Key><T>Department</T><P>d7</P></Key>''\<rparr>]"
      "\<lparr>Value = None\<rparr>" "''d7''" "[]" "[relPerson, relDepartment]"
      "\<lparr>Value = Some ''<Key><T>Department</T><P>d7</P></Key>''\<rparr>"
      exComponent relPerson relPerson "[]" exExternals "asNewState (parameters exComponent)"
      "\<lparr>TotalCount = 21, Entities = Some [exRow ''p1'' ''Jo Smith''], Hierarchy = None\<rparr>"
      "[exRow ''p1'' ''Jo Smith'']" 0 True]
    candidateKey_derivation [of "Some [relPerson, relDepartment]" relPerson bareRow
      "Map.empty" "\<lparr>Value = None\<rparr>" "''k1''" "[''k2'']" "[relPerson, relDepartment]"
      "\<lparr>Value = None\<rparr>"
      exComponent relPerson relPerson "[]" exExternals "asNewState (parameters exComponent)"
      "\<lparr>TotalCount = 21, Entities = Some [exRow ''p1'' ''Jo Smith''], Hierarchy = None\<rparr>"
      "[exRow ''p1'' ''Jo Smith'']" 0 True]
  show ?thesis by (simp add: ex_defs fk_defs)
qed

subsection \<open>Histories keep a table selected once something was fetched\<close>

lemma tableKnown_Some: "selectedTable s = Some t \<Longrightarrow> tableKnown s"
  by (simp add: tableKnown_def)

lemma tableKnown_field_updates:
  "tableKnown s \<Longrightarrow> tableKnown (s\<lparr>control_value := v\<rparr>)"
  "tableKnown s \<Longrightarrow> tableKnown (s\<lparr>columnContainer := cc\<rparr>)"
  "tableKnown s \<Longrightarrow> tableKnown (s\<lparr>loading := b\<rparr>)"
  "tableKnown s \<Longrightarrow> tableKnown (s\<lparr>candidates := cs\<rparr>)"
  "tableKnown s \<Longrightarrow> tableKnown (perform e s)"
  "tableKnown s \<Longrightarrow> tableKnown (s\<lparr>parameters := (parameters s)\<lparr>StartIndex := i\<rparr>\<rparr>)"
  by (simp_all add: tableKnown_def perform_def active_def)

lemma tableKnown_writeValue: "tableKnown s \<Longrightarrow> tableKnown (writeValue ext v s)"
  by (simp add: tableKnown_def writeValue_frame)

lemma updateCandidates_no_table:
  "selectedTable s = None \<Longrightarrow> updateCandidates ext n chk cat s = (None, s)"
  by (simp add: updateCandidates_def)

lemma updateCandidates_table:
  "selectedTable s = Some t \<Longrightarrow> selectedTable (snd (updateCandidates ext n chk cat s)) = Some t"
  by (auto simp add: updateCandidates_def Let_def perform_def assignParameters_def
      split: sum.splits option.splits)

lemma tableKnown_updateCandidates:
  "tableKnown s \<Longrightarrow> tableKnown (snd (updateCandidates ext n chk cat s))"
  by (cases "selectedTable s")
     (auto simp add: updateCandidates_no_table intro: tableKnown_Some updateCandidates_table)

lemma setControlValue_table_kept:
  "selectedTable s = Some t \<Longrightarrow> \<exists>t'. selectedTable (snd (setControlValue ext s)) = Some t'"
  by (auto simp add: setControlValue_def Let_def perform_def
      split: sum.splits option.splits list.splits)

lemma setControlValue_frame:
  "parameters (snd (setControlValue ext s)) = parameters s"
  "savedParameters (snd (setControlValue ext s)) = savedParameters s"
  "candidatesTotalCount (snd (setControlValue ext s)) = candidatesTotalCount s"
  by (auto simp add: setControlValue_def Let_def perform_def
      split: sum.splits option.splits list.splits)

lemma tableKnown_setControlValue:
  assumes "tableKnown s"
  shows "tableKnown (snd (setControlValue ext s))"
proof (cases "selectedTable (snd (setControlValue ext s))")
  case None
  then have "selectedTable s = None"
    using setControlValue_table_kept [of s _ ext] by (cases "selectedTable s") auto
  with assms None show ?thesis
    by (simp add: tableKnown_def setControlValue_frame)
next
  case (Some t)
  then show ?thesis by (rule tableKnown_Some)
qed

lemma tableKnown_initCandidates: "tableKnown s \<Longrightarrow> tableKnown (snd (initCandidates ext s))"
  by (simp add: initCandidates_def tableKnown_updateCandidates)

lemma tableKnown_search: "tableKnown s \<Longrightarrow> tableKnown (snd (search' ext k s))"
  by (simp add: search'_def Let_def tableKnown_updateCandidates tableKnown_field_updates)

lemma tableKnown_onScroll: "tableKnown s \<Longrightarrow> tableKnown (snd (onScroll ext t s))"
  by (simp add: onScroll_def Let_def tableKnown_updateCandidates tableKnown_field_updates)

lemma tableKnown_removeAssignment: "tableKnown s \<Longrightarrow> tableKnown (snd (removeAssignment ext s))"
  by (simp add: removeAssignment_def Let_def tableKnown_updateCandidates
      tableKnown_writeValue tableKnown_field_updates)

lemma tableKnown_afterClosed: "tableKnown s \<Longrightarrow> tableKnown (afterClosed ext sel s)"
  by (cases sel) (auto simp add: afterClosed_def Let_def tableKnown_Some writeValue_frame)

lemma tableKnown_editAssignment: "tableKnown s \<Longrightarrow> tableKnown (snd (editAssignment ext sel s))"
  by (simp add: editAssignment_def tableKnown_afterClosed split: option.splits)

lemma tableKnown_close: "tableKnown s \<Longrightarrow> tableKnown (close s)"
  by (simp add: close_def Let_def tableKnown_def)

lemma tableKnown_restore:
  "tableKnown s \<Longrightarrow>
   tableKnown (case savedParameters s of
                 NotSaved \<Rightarrow>
                   assignParameters \<lparr>PageSize = pageSize, StartIndex = 0, search = None, filter' = None\<rparr> s
               | SameObject \<Rightarrow> s
               | OtherObject p \<Rightarrow> s\<lparr>parameters := p, savedParameters := SameObject\<rparr>)"
  by (auto simp add: tableKnown_def assignParameters_def active_def truthy_def
      split: SavedParameters.splits)

lemma tableKnown_onOpened: "tableKnown s \<Longrightarrow> tableKnown (snd (onOpened ext s))"
  using tableKnown_restore [of s]
  by (simp add: onOpened_def Let_def tableKnown_updateCandidates tableKnown_field_updates)

lemma tableKnown_valueChanges: "tableKnown s \<Longrightarrow> tableKnown (snd (valueChanges ext k s))"
  by (cases k) (simp_all add: valueChanges_def Let_def tableKnown_search tableKnown_field_updates)

lemma tableKnown_inputFocus: "tableKnown s \<Longrightarrow> tableKnown (snd (inputFocus ext s))"
  by (simp add: inputFocus_def tableKnown_initCandidates)

lemma tableKnown_bind: "tableKnown s \<Longrightarrow> tableKnown (snd (bind' ext c s))"
  by (cases c) (simp_all add: bind'_def tableKnown_setControlValue tableKnown_field_updates)

lemma tableKnown_entityChanged: "tableKnown s \<Longrightarrow> tableKnown (snd (entityChanged ext cc s))"
  by (simp add: entityChanged_def Let_def tableKnown_setControlValue tableKnown_field_updates
      split: option.splits)

lemma tableKnown_updateRequested: "tableKnown s \<Longrightarrow> tableKnown (snd (updateRequested ext s))"
  by (simp add: updateRequested_def Let_def tableKnown_setControlValue tableKnown_field_updates
      tableKnown_initCandidates split: option.splits)

lemma tableKnown_handle: "tableKnown s \<Longrightarrow> tableKnown (handle ext ev s)"
  by (cases ev)
     (simp_all add: tableKnown_field_updates tableKnown_bind ngOnInit_fk_def tableKnown_initCandidates
        tableKnown_inputFocus tableKnown_onOpened optionSelected_def tableKnown_writeValue
        tableKnown_removeAssignment tableKnown_close tableKnown_editAssignment
        tableKnown_entityChanged tableKnown_updateRequested tableKnown_valueChanges
        tableKnown_onScroll)

lemma tableKnown_initial: "tableKnown (initial cc)"
  by (simp add: tableKnown_def initial_def active_def truthy_def)

lemma tableKnown_history: "tableKnown s \<Longrightarrow> tableKnown (history evs s)"
  by (induction evs s rule: history.induct) (simp_all add: tableKnown_handle)

lemma active_has_table:
  "active (parameters (history evs (initial cc))) \<Longrightarrow>
   \<exists>table. selectedTable (history evs (initial cc)) = Some table"
  using tableKnown_history [OF tableKnown_initial, of evs cc]
  by (cases "selectedTable (history evs (initial cc))") (auto simp add: tableKnown_def)

lemma count_has_table:
  "candidatesTotalCount (history evs (initial cc)) = Some count \<Longrightarrow>
   \<exists>table. selectedTable (history evs (initial cc)) = Some table"
  using tableKnown_history [OF tableKnown_initial, of evs cc]
  by (cases "selectedTable (history evs (initial cc))") (auto simp add: tableKnown_def)

subsection \<open>Scrolling\<close>

text \<open>
  C4. In every state that a history of events leads to and in which there is a candidate
  list: a scroll event that finds the panel within 10 px of its bottom while nothing is
  loading and the total count exceeds the start index plus the page size advances the
  start index by the page size and issues one fetch, for the selected table and with the
  advanced parameters; the candidates of the fetched collection are appended to the list.
  When the total count is unknown or does not exceed the start index plus the page
  size, the event changes nothing and fetches nothing.
\<close>

theorem onScroll_next_page:
  assumes "s = history evs (initial cc0)"
    and "p = (parameters s)\<lparr>StartIndex := StartIndex (parameters s) + pageSize\<rparr>"
  shows "(offsetHeight target + scrollTop target \<ge> scrollHeight target - 10
          \<and> \<not> loading s \<and> candidates s = Some cs
          \<and> candidatesTotalCount s = Some count
          \<and> count > StartIndex (parameters s) + pageSize \<longrightarrow>
            (\<exists>table. selectedTable s = Some table
               \<and> effects (snd (onScroll ext target s)) = effects s @ [GetCandidates table p]
               \<and> parameters (snd (onScroll ext target s)) = p
               \<and> (\<forall>coll new. Get ext table p = Inr (Some coll)
                     \<and> newCandidates (fkRelations (columnContainer s)) table coll = Inr new \<longrightarrow>
                     fst (onScroll ext target s) = None
                     \<and> candidates (snd (onScroll ext target s)) = Some (cs @ new))))
     \<and> (candidatesTotalCount s = None
         \<or> candidatesTotalCount s = Some count \<and> count \<le> StartIndex (parameters s) + pageSize \<longrightarrow>
          onScroll ext target s = (None, s))"
proof -
  have more: "\<exists>table. selectedTable s = Some table
               \<and> effects (snd (onScroll ext target s)) = effects s @ [GetCandidates table p]
               \<and> parameters (snd (onScroll ext target s)) = p
               \<and> (\<forall>coll new. Get ext table p = Inr (Some coll)
                     \<and> newCandidates (fkRelations (columnContainer s)) table coll = Inr new \<longrightarrow>
                     fst (onScroll ext target s) = None
                     \<and> candidates (snd (onScroll ext target s)) = Some (cs @ new))"
    if near: "offsetHeight target + scrollTop target \<ge> scrollHeight target - 10"
      and idle: "\<not> loading s" and list: "candidates s = Some cs"
      and count: "candidatesTotalCount s = Some count"
      and pages: "count > StartIndex (parameters s) + pageSize"
  proof -
    from count assms(1) obtain table where table: "selectedTable s = Some table"
      using count_has_table by blast
    let ?s1 = "s\<lparr>parameters := p\<rparr>"
    have unfold: "onScroll ext target s = updateCandidates ext (asNewState p) False True ?s1"
      using near idle count pages by (simp add: onScroll_def Let_def assms(2))
    have "effects (snd (onScroll ext target s)) = effects s @ [GetCandidates table p]
        \<and> parameters (snd (onScroll ext target s)) = p"
      using table
      by (auto simp add: unfold updateCandidates_def Let_def perform_def assignParameters_def
          spread_asNewState split: sum.splits option.splits SavedParameters.splits)
    moreover have "fst (onScroll ext target s) = None
          \<and> candidates (snd (onScroll ext target s)) = Some (cs @ new)"
      if "Get ext table p = Inr (Some coll)"
        "newCandidates (fkRelations (columnContainer s)) table coll = Inr new" for coll new
      using updateCandidates_fetched(4) [of ?s1 table ext "asNewState p" coll new True cs False]
        that table list
      by (simp add: unfold spread_asNewState)
    ultimately show ?thesis using table by blast
  qed
  have nomore: "onScroll ext target s = (None, s)"
    if "candidatesTotalCount s = None
        \<or> candidatesTotalCount s = Some count \<and> count \<le> StartIndex (parameters s) + pageSize"
    using that by (auto simp add: onScroll_def)
  from more nomore show ?thesis by blast
qed

theorem onScroll_next_page_witness:
  "candidates scrolledComponent
     = Some [\<lparr>DataValue = Some ''p1'', DisplayValue = Some ''Jo Smith'', displayLong = Some []\<rparr>]
   \<and> candidatesTotalCount scrolledComponent = Some 21
   \<and> StartIndex (parameters scrolledComponent) = 0
   \<and> effects (snd (onScroll exExternals nearBottom scrolledComponent))
       = effects scrolledComponent
         @ [GetCandidates relPerson \<lparr>PageSize = 20, StartIndex = 20, search = None, filter' = None\<rparr>]
   \<and> candidates (snd (onScroll exExternals nearBottom scrolledComponent))
       = Some [\<lparr>DataValue = Some ''p1'', DisplayValue = Some ''Jo Smith'', displayLong = Some []\<rparr>,
               \<lparr>DataValue = Some ''p21'', DisplayValue = Some ''Ann Roe'', displayLong = Some []\<rparr>]
   \<and> onScroll exExternals nearBottom (snd (onScroll exExternals nearBottom scrolledComponent))
       = (None, snd (onScroll exExternals nearBottom scrolledComponent))"
proof -
  let ?page2 = "\<lparr>TotalCount = 21, Entities = Some [exRow ''p21'' ''Ann Roe''], Hierarchy = None\<rparr>"
  let ?s' = "snd (onScroll exExternals nearBottom scrolledComponent)"
  let ?evs = "[(exExternals, Bind (Some exColumn)), (exExternals, NgOnInit), (exExternals, OnOpened)]"
  have h1: "scrolledComponent = history ?evs (initial exColumn)"
    by (simp add: scrolledComponent_def exComponent_def)
  have h2: "?s' = history (?evs @ [(exExternals, Scroll nearBottom)]) (initial exColumn)"
    by (simp add: scrolledComponent_def exComponent_def)
  have before: "offsetHeight nearBottom + scrollTop nearBottom \<ge> scrollHeight nearBottom - 10
      \<and> \<not> loading scrolledComponent \<and> selectedTable scrolledComponent = Some relPerson
      \<and> candidates scrolledComponent
          = Some [\<lparr>DataValue = Some ''p1'', DisplayValue = Some ''Jo Smith'', displayLong = Some []\<rparr>]
      \<and> candidatesTotalCount scrolledComponent = Some 21
      \<and> parameters scrolledComponent = \<lparr>PageSize = 20, StartIndex = 0, search = None, filter' = None\<rparr>
      \<and> fkRelations (columnContainer scrolledComponent) = Some [relPerson]"
    by (simp add: ex_defs fk_defs)
  have page: "Get exExternals relPerson \<lparr>PageSize = 20, StartIndex = 20, search = None, filter' = None\<rparr>
        = Inr (Some ?page2)
      \<and> newCandidates (Some [relPerson]) relPerson ?page2
          = Inr [\<lparr>DataValue = Some ''p21'', DisplayValue = Some ''Ann Roe'', displayLong = Some []\<rparr>]"
    by (simp add: ex_defs fk_defs)
  have after: "candidatesTotalCount ?s' = Some 21 \<and> StartIndex (parameters ?s') = 20"
    by (simp add: ex_defs fk_defs)
  from before page after
    onScroll_next_page [OF h1 refl, of nearBottom
      "[\<lparr>DataValue = Some ''p1'', DisplayValue = Some ''Jo Smith'', displayLong = Some []\<rparr>]"
      21 exExternals]
    onScroll_next_page [OF h2 refl, of nearBottom "[]" 21 exExternals]
  show ?thesis by (auto simp add: pageSize_def)
qed

subsection \<open>Removing the assignment\<close>

lemma not_equal_emptyValue: "\<not> equalValue (toControl (getValueStruct s)) (Struct emptyValue)"
  by (auto simp add: equalValue_def toControl_def getValueStruct_def emptyValue_def truthy_def
      split: option.splits)

lemma writeValue_emptyValue_effects:
  "effects (writeValue ext (Some emptyValue) s) =
     (if canEdit (columnContainer s)
      then effects s @ [UpdateValueStruct (Some emptyValue),
             (case updateValueStruct ext (columnContainer s) (Some emptyValue) of
                Inl err \<Rightarrow> HandleError err
              | Inr cc \<Rightarrow> Emit \<lparr>ev_value = Struct emptyValue, forceEmit = True\<rparr>)]
      else effects s)"
  using not_equal_emptyValue [of s]
  by (auto simp add: writeValue_def perform_def Let_def toControl_def split: sum.splits)

text \<open>
  C5. In every state that a history of events leads to, \<open>removeAssignment\<close> sets the
  control to \<open>{ DataValue: undefined }\<close> and hands this value, whose key is absent, to
  \<open>writeValue\<close>, which passes it to the entity update whenever the column is editable.
  If a search or a filter is set, a table is selected, the start index is then set to 0,
  search and filter are cleared, and one fetch with these parameters is issued, whose
  candidates replace the list. If neither is set, nothing happens after the write.
\<close>

theorem removeAssignment_clears:
  assumes "s = history evs (initial cc0)"
    and "s2 = writeValue ext (Some emptyValue) (s\<lparr>control_value := Struct emptyValue\<rparr>)"
    and "p = \<lparr>PageSize = PageSize (parameters s), StartIndex = 0, search = None, filter' = None\<rparr>"
  shows "DataValue emptyValue = None
     \<and> effects s2 =
         (if canEdit (columnContainer s)
          then effects s @ [UpdateValueStruct (Some emptyValue),
                 (case updateValueStruct ext (columnContainer s) (Some emptyValue) of
                    Inl err \<Rightarrow> HandleError err
                  | Inr cc \<Rightarrow> Emit \<lparr>ev_value = Struct emptyValue, forceEmit = True\<rparr>)]
          else effects s)
     \<and> (active (parameters s) \<longrightarrow>
          (\<exists>table. selectedTable s = Some table
             \<and> effects (snd (removeAssignment ext s)) = effects s2 @ [GetCandidates table p]
             \<and> parameters (snd (removeAssignment ext s)) = p
             \<and> (\<forall>coll new. Get ext table p = Inr (Some coll)
                   \<and> newCandidates (fkRelations (columnContainer s2)) table coll = Inr new \<longrightarrow>
                   fst (removeAssignment ext s) = None
                   \<and> candidates (snd (removeAssignment ext s)) = Some new)))
     \<and> (\<not> active (parameters s) \<longrightarrow> removeAssignment ext s = (None, s2))"
proof -
  have key: "DataValue emptyValue = None"
    by (simp add: emptyValue_def)
  have eff: "effects s2 =
         (if canEdit (columnContainer s)
          then effects s @ [UpdateValueStruct (Some emptyValue),
                 (case updateValueStruct ext (columnContainer s) (Some emptyValue) of
                    Inl err \<Rightarrow> HandleError err
                  | Inr cc \<Rightarrow> Emit \<lparr>ev_value = Struct emptyValue, forceEmit = True\<rparr>)]
          else effects s)"
    using writeValue_emptyValue_effects [of ext "s\<lparr>control_value := Struct emptyValue\<rparr>"]
    by (simp add: assms(2))
  have unfold: "removeAssignment ext s =
      (if active (parameters s)
       then updateCandidates ext
              \<lparr>ns_PageSize = None, ns_StartIndex = None, ns_search = Some None, ns_filter = Some None\<rparr>
              True False (s2\<lparr>parameters := (parameters s)\<lparr>StartIndex := 0\<rparr>\<rparr>)
       else (None, s2))"
    by (simp add: removeAssignment_def Let_def writeValue_frame assms(2) active_def)
  have refetch: "\<exists>table. selectedTable s = Some table
             \<and> effects (snd (removeAssignment ext s)) = effects s2 @ [GetCandidates table p]
             \<and> parameters (snd (removeAssignment ext s)) = p
             \<and> (\<forall>coll new. Get ext table p = Inr (Some coll)
                   \<and> newCandidates (fkRelations (columnContainer s2)) table coll = Inr new \<longrightarrow>
                   fst (removeAssignment ext s) = None
                   \<and> candidates (snd (removeAssignment ext s)) = Some new)"
    if act: "active (parameters s)"
  proof -
    from act assms(1) obtain table where table: "selectedTable s = Some table"
      using active_has_table by blast
    let ?s3 = "s2\<lparr>parameters := (parameters s)\<lparr>StartIndex := 0\<rparr>\<rparr>"
    let ?n = "\<lparr>ns_PageSize = None, ns_StartIndex = None, ns_search = Some None, ns_filter = Some None\<rparr>"
    have t3: "selectedTable ?s3 = Some table"
      by (simp add: assms(2) writeValue_frame table)
    have sp: "spread (parameters ?s3) ?n = p"
      by (simp add: spread_def assms(3))
    have "effects (snd (removeAssignment ext s)) = effects s2 @ [GetCandidates table p]
        \<and> parameters (snd (removeAssignment ext s)) = p"
      using act t3 sp
      by (auto simp add: unfold updateCandidates_def Let_def perform_def assignParameters_def
          split: sum.splits option.splits SavedParameters.splits)
    moreover have "fst (removeAssignment ext s) = None
          \<and> candidates (snd (removeAssignment ext s)) = Some new"
      if "Get ext table p = Inr (Some coll)"
        "newCandidates (fkRelations (columnContainer s2)) table coll = Inr new" for coll new
      using updateCandidates_fetched(3) [of ?s3 table ext ?n coll new False True] that t3 sp act
      by (simp add: unfold)
    ultimately show ?thesis using table by blast
  qed
  have idle: "removeAssignment ext s = (None, s2)" if "\<not> active (parameters s)"
    using that by (simp add: unfold)
  from key eff refetch idle show ?thesis by blast
qed

theorem removeAssignment_clears_witness:
  "active (parameters searchingComponent)
   \<and> effects (snd (removeAssignment exExternals searchingComponent))
       = effects searchingComponent
         @ [UpdateValueStruct (Some emptyValue),
            Emit \<lparr>ev_value = Struct emptyValue, forceEmit = True\<rparr>,
            GetCandidates relPerson \<lparr>PageSize = 20, StartIndex = 0, search = None, filter' = None\<rparr>]
   \<and> parameters (snd (removeAssignment exExternals searchingComponent))
       = \<lparr>PageSize = 20, StartIndex = 0, search = None, filter' = None\<rparr>
   \<and> \<not> active (parameters exComponent)
   \<and> effects (snd (removeAssignment exExternals exComponent))
       = effects exComponent
         @ [UpdateValueStruct (Some emptyValue),
            Emit \<lparr>ev_value = Struct emptyValue, forceEmit = True\<rparr>]"
proof -
  have s1: "searchingComponent
      = history [(exExternals, Bind (Some exColumn)), (exExternals, ValueChanges (Text ''jo''))]
          (initial exColumn)"
    by (simp add: searchingComponent_def)
  have s2: "exComponent = history [(exExternals, Bind (Some exColumn))] (initial exColumn)"
    by (simp add: exComponent_def)
  have facts: "active (parameters searchingComponent) \<and> \<not> active (parameters exComponent)
      \<and> canEdit (columnContainer searchingComponent) \<and> canEdit (columnContainer exComponent)
      \<and> selectedTable searchingComponent = Some relPerson
      \<and> PageSize (parameters searchingComponent) = 20
      \<and> updateValueStruct exExternals (columnContainer searchingComponent) (Some emptyValue)
          = Inr (exColumn\<lparr>cc_value := None, cc_displayValue := None\<rparr>)
      \<and> updateValueStruct exExternals (columnContainer exComponent) (Some emptyValue)
          = Inr (exColumn\<lparr>cc_value := None, cc_displayValue := None\<rparr>)"
    by (simp add: ex_defs fk_defs)
  from facts
    removeAssignment_clears [OF s1 refl refl, of exExternals]
    removeAssignment_clears [OF s2 refl refl, of exExternals]
  show ?thesis by auto
qed

subsection \<open>The selected table\<close>

lemma find_Some_holds: "find P xs = Some t \<Longrightarrow> t \<in> set xs \<and> P t"
  by (induction xs) (auto split: if_splits)

lemma setControlValue_relations:
  assumes "fkRelations (columnContainer s) = Some rels" and "rels \<noteq> []"
  shows "setControlValue ext s =
     (case (if length rels > 1 \<and> truthy (cc_value (columnContainer s))
            then (case FromXml ext (the (cc_value (columnContainer s))) of
                    Inl e \<Rightarrow> Inl e
                  | Inr k \<Rightarrow> Inr (find (\<lambda>fkr. TableName fkr = key_TableName k) rels))
            else Inr None) of
        Inl e \<Rightarrow> (Some e, s)
      | Inr table \<Rightarrow>
          (None, s\<lparr>selectedTable := Some (case table of Some t \<Rightarrow> t | None \<Rightarrow> hd rels),
                   effects := effects s @ [UpdateNonExisting (map TableName rels)],
                   control_value := toControl (getValueStruct s),
                   control_validators :=
                     (if isValueRequired (columnContainer s) \<and> canEdit (columnContainer s)
                      then [Required, CheckAutocomplete]
                      else [CheckAutocomplete])\<rparr>))"
proof (cases rels)
  case Nil
  with assms show ?thesis by simp
next
  case (Cons r0 rs)
  with assms(1) show ?thesis
    by (simp add: setControlValue_def Let_def perform_def getValueStruct_def
        split: sum.splits option.splits)
qed

text \<open>
  C6. For a column with two or more relations and a non-empty value whose object key
  \<open>DbObjectKey.FromXml\<close> can read, \<open>setControlValue\<close> selects the first relation
  whose \<open>TableName\<close> is the table name of the key, if there is one; if no relation has
  that name, it selects the first relation. For a column with at least one relation and
  no value (undefined or the empty string), it selects the first relation.
\<close>

theorem setControlValue_selects_table:
  "(fkRelations (columnContainer s) = Some rels \<and> length rels \<ge> 2
      \<and> cc_value (columnContainer s) = Some v \<and> v \<noteq> []
      \<and> FromXml ext v = Inr dbObjectKey
      \<and> find (\<lambda>fkr. TableName fkr = key_TableName dbObjectKey) rels = Some t \<longrightarrow>
        fst (setControlValue ext s) = None
        \<and> selectedTable (snd (setControlValue ext s)) = Some t
        \<and> t \<in> set rels \<and> TableName t = key_TableName dbObjectKey)
   \<and> (fkRelations (columnContainer s) = Some rels \<and> length rels \<ge> 2
      \<and> cc_value (columnContainer s) = Some v \<and> v \<noteq> []
      \<and> FromXml ext v = Inr dbObjectKey
      \<and> find (\<lambda>fkr. TableName fkr = key_TableName dbObjectKey) rels = None \<longrightarrow>
        fst (setControlValue ext s) = None
        \<and> selectedTable (snd (setControlValue ext s)) = Some (hd rels))
   \<and> (fkRelations (columnContainer s) = Some rels \<and> rels \<noteq> []
      \<and> \<not> truthy (cc_value (columnContainer s)) \<longrightarrow>
        fst (setControlValue ext s) = None
        \<and> selectedTable (snd (setControlValue ext s)) = Some (hd rels))"
proof -
  have match: "fst (setControlValue ext s) = None
        \<and> selectedTable (snd (setControlValue ext s)) = Some t
        \<and> t \<in> set rels \<and> TableName t = key_TableName dbObjectKey"
    if "fkRelations (columnContainer s) = Some rels" "length rels \<ge> 2"
      "cc_value (columnContainer s) = Some v" "v \<noteq> []" "FromXml ext v = Inr dbObjectKey"
      "find (\<lambda>fkr. TableName fkr = key_TableName dbObjectKey) rels = Some t"
  proof -
    from that(2) have "rels \<noteq> []" by auto
    with that show ?thesis
      using find_Some_holds [OF that(6)]
      by (simp add: setControlValue_relations truthy_def)
  qed
  have nomatch: "fst (setControlValue ext s) = None
        \<and> selectedTable (snd (setControlValue ext s)) = Some (hd rels)"
    if "fkRelations (columnContainer s) = Some rels" "length rels \<ge> 2"
      "cc_value (columnContainer s) = Some v" "v \<noteq> []" "FromXml ext v = Inr dbObjectKey"
      "find (\<lambda>fkr. TableName fkr = key_TableName dbObjectKey) rels = None"
  proof -
    from that(2) have "rels \<noteq> []" by auto
    with that show ?thesis
      by (simp add: setControlValue_relations truthy_def)
  qed
  have novalue: "fst (setControlValue ext s) = None
        \<and> selectedTable (snd (setControlValue ext s)) = Some (hd rels)"
    if "fkRelations (columnContainer s) = Some rels" "rels \<noteq> []"
      "\<not> truthy (cc_value (columnContainer s))"
    using that by (simp add: setControlValue_relations)
  from match nomatch novalue show ?thesis by blast
qed

theorem setControlValue_selects_table_witness:
  "fkRelations dynamicColumn = Some [relPerson, relDepartment]
   \<and> cc_value dynamicColumn = Some ''<Key><T>Department</T><P>d7</P></Key>''
   \<and> FromXml exExternals ''<Key><T>Department</T><P>d7</P></Key>''
       = Inr \<lparr>key_TableName = ''Department''\<rparr>
   \<and> selectedTable (snd (setControlValue exExternals (initial dynamicColumn))) = Some relDepartment
   \<and> selectedTable (snd (setControlValue exExternals (initial (dynamicColumn\<lparr>cc_value := None\<rparr>))))
       = Some relPerson"
proof -
  have given: "fkRelations (columnContainer (initial dynamicColumn)) = Some [relPerson, relDepartment]
      \<and> length [relPerson, relDepartment] \<ge> 2
      \<and> cc_value (columnContainer (initial dynamicColumn))
          = Some ''<Key><T>Department</T><P>d7</P></Key>''
      \<and> ''<Key><T>Department</T><P>d7</P></Key>'' \<noteq> []
      \<and> FromXml exExternals ''<Key><T>Department</T><P>d7</P></Key>''
          = Inr \<lparr>key_TableName = ''Department''\<rparr>
      \<and> find (\<lambda>fkr. TableName fkr = key_TableName \<lparr>key_TableName = ''Department''\<rparr>)
            [relPerson, relDepartment] = Some relDepartment"
    by (simp add: ex_defs initial_def)
  have empty: "fkRelations (columnContainer (initial (dynamicColumn\<lparr>cc_value := None\<rparr>)))
        = Some [relPerson, relDepartment]
      \<and> [relPerson, relDepartment] \<noteq> []
      \<and> \<not> truthy (cc_value (columnContainer (initial (dynamicColumn\<lparr>cc_value := None\<rparr>))))"
    by (simp add: ex_defs initial_def truthy_def)
  from given empty
    setControlValue_selects_table [of "initial dynamicColumn" "[relPerson, relDepartment]"
      "''<Key><T>Department</T><P>d7</P></Key>''" exExternals
      "\<lparr>key_TableName = ''Department''\<rparr>" relDepartment]
    setControlValue_selects_table [of "initial (dynamicColumn\<lparr>cc_value := None\<rparr>)"
      "[relPerson, relDepartment]" "''x''" exExternals
      "\<lparr>key_TableName = ''Department''\<rparr>" relDepartment]
  show ?thesis by (simp add: ex_defs)
qed

section \<open>Properties of the bulk decision rows\<close>

lemma buildSingleItem_entity:
  "buildSingleItem srv d a = Inr it \<Longrightarrow> entity it = a \<and> status it = valid"
  by (auto simp add: buildSingleItem_def Let_def split: sum.splits option.splits)

lemma buildSingleItem_Inr:
  "parameterColumns a = None \<or> (\<exists>w. getExtendedEntity srv (key a) = Inr w) \<Longrightarrow>
   \<exists>it. buildSingleItem srv d a = Inr it"
  by (auto simp add: buildSingleItem_def Let_def split: sum.splits option.splits)

lemma buildSingleItem_Inl:
  "parameterColumns a \<noteq> None \<Longrightarrow> getExtendedEntity srv (key a) = Inl e \<Longrightarrow>
   buildSingleItem srv d a = Inl e"
  by (auto simp add: buildSingleItem_def Let_def split: option.splits)

text \<open>
  C7. When the approval service answers for every request that has parameter columns,
  \<open>ngOnInit\<close> ends normally and stores as many bulk items as there are requests; the
  item at position \<open>i\<close> is the one \<open>buildSingleItem\<close> makes of the request at position
  \<open>i\<close>, and this request is its \<open>entity\<close>.
\<close>

theorem ngOnInit_builds_all:
  assumes "\<forall>a \<in> set (requests (data c)).
             parameterColumns a = None \<or> (\<exists>w. getExtendedEntity srv (key a) = Inr w)"
  shows "fst (ngOnInit srv c) = None
     \<and> (\<exists>items. bulk_requests (snd (ngOnInit srv c)) = Some items
          \<and> length items = length (requests (data c))
          \<and> (\<forall>i < length items.
                buildSingleItem srv (data c) (requests (data c) ! i) = Inr (items ! i)
                \<and> entity (items ! i) = requests (data c) ! i))"
proof -
  from assms have "\<forall>a \<in> set (requests (data c)). \<exists>it. buildSingleItem srv (data c) a = Inr it"
    using buildSingleItem_Inr by blast
  then obtain items where items: "mapE (buildSingleItem srv (data c)) (requests (data c)) = Inr items"
    using mapE_all_Inr by blast
  have len: "length items = length (requests (data c))"
    using items by (rule mapE_Inr_length)
  have nth: "buildSingleItem srv (data c) (requests (data c) ! i) = Inr (items ! i)
                \<and> entity (items ! i) = requests (data c) ! i" if "i < length items" for i
  proof -
    from that len have "buildSingleItem srv (data c) (requests (data c) ! i) = Inr (items ! i)"
      using mapE_Inr_nth [OF items, of i] by simp
    then show ?thesis using buildSingleItem_entity by blast
  qed
  show ?thesis
    using items len nth by (simp add: ngOnInit_def promiseAll_def mapE_map Let_def)
qed

theorem ngOnInit_builds_all_witness:
  "fst (ngOnInit exServices (exBulk [exApproval ''r1'', exApproval ''r2''])) = None
   \<and> map_option (map entity)
        (bulk_requests (snd (ngOnInit exServices (exBulk [exApproval ''r1'', exApproval ''r2'']))))
       = Some [exApproval ''r1'', exApproval ''r2'']"
proof -
  let ?c = "exBulk [exApproval ''r1'', exApproval ''r2'']"
  have reqs: "requests (data ?c) = [exApproval ''r1'', exApproval ''r2'']"
    by (simp add: bulk_ex_defs)
  have answered: "\<forall>a \<in> set (requests (data ?c)).
      parameterColumns a = None \<or> (\<exists>w. getExtendedEntity exServices (key a) = Inr w)"
    by (simp add: bulk_ex_defs)
  from ngOnInit_builds_all [OF answered] obtain items where
    ok: "fst (ngOnInit exServices ?c) = None"
    and items: "bulk_requests (snd (ngOnInit exServices ?c)) = Some items"
    and len: "length items = length (requests (data ?c))"
    and nth: "\<forall>i < length items. entity (items ! i) = requests (data ?c) ! i"
    by blast
  from len nth reqs have "map entity items = [exApproval ''r1'', exApproval ''r2'']"
    by (intro nth_equalityI) (auto simp add: less_Suc_eq)
  with ok items show ?thesis by simp
qed

lemma status_validations:
  "status (validations bs it) =
     (if bs = [] then status it else if last bs = Some True then valid else unknown)"
  by (induction bs arbitrary: it) (auto simp add: validateItem_def)

text \<open>
  C8. A bulk item is built with the status \<open>valid\<close>. After any history of validation
  events its status is \<open>valid\<close> or \<open>unknown\<close>, and once there was such an event it is
  \<open>valid\<close> exactly if the last \<open>validateItem\<close> found the item's flag \<open>valid\<close> true.
\<close>

theorem validateItem_status:
  assumes "buildSingleItem srv d a = Inr it"
  shows "status it = valid
     \<and> (status (validations bs it) = valid \<or> status (validations bs it) = unknown)
     \<and> (bs \<noteq> [] \<longrightarrow> (status (validations bs it) = valid \<longleftrightarrow> last bs = Some True))"
proof -
  from assms have "status it = valid"
    using buildSingleItem_entity by blast
  then show ?thesis by (simp add: status_validations)
qed

theorem validateItem_status_witness:
  "map_sum id (\<lambda>it. status (validations [Some True, Some False] it))
      (buildSingleItem exServices (exData []) (exApproval ''r1'')) = Inr unknown
   \<and> map_sum id (\<lambda>it. status (validations [Some False, None, Some True] it))
      (buildSingleItem exServices (exData []) (exApproval ''r1'')) = Inr valid"
proof -
  obtain it where it: "buildSingleItem exServices (exData []) (exApproval ''r1'') = Inr it"
    using buildSingleItem_Inr [of "exApproval ''r1''" exServices "exData []"]
    by (auto simp add: bulk_ex_defs)
  from validateItem_status [OF it, of "[Some True, Some False]"]
    validateItem_status [OF it, of "[Some False, None, Some True]"]
  have "status (validations [Some True, Some False] it) = unknown
      \<and> status (validations [Some False, None, Some True] it) = valid"
    by (auto simp del: validations.simps)
  with it show ?thesis by simp
qed

text \<open>
  C9. Every run of \<open>ngOnInit\<close> calls \<open>beginBusy\<close> once and then \<open>endBusy\<close> once,
  however it ends. When the approval service rejects the fetch for one request, the run
  ends with a rejection and the component's list of bulk items is what it was before:
  the items of the other requests are not stored.
\<close>

theorem ngOnInit_busy:
  "busyService (snd (ngOnInit srv c)) = busyService c @ [BeginBusy, EndBusy]
   \<and> (a \<in> set (requests (data c)) \<and> parameterColumns a \<noteq> None
        \<and> getExtendedEntity srv (key a) = Inl e \<longrightarrow>
         fst (ngOnInit srv c) \<noteq> None
         \<and> bulk_requests (snd (ngOnInit srv c)) = bulk_requests c)"
proof -
  have busy: "busyService (snd (ngOnInit srv c)) = busyService c @ [BeginBusy, EndBusy]"
    by (simp add: ngOnInit_def Let_def split: sum.splits)
  have fail: "fst (ngOnInit srv c) \<noteq> None \<and> bulk_requests (snd (ngOnInit srv c)) = bulk_requests c"
    if "a \<in> set (requests (data c))" "parameterColumns a \<noteq> None"
      "getExtendedEntity srv (key a) = Inl e"
  proof -
    from that have "buildSingleItem srv (data c) a = Inl e"
      using buildSingleItem_Inl by blast
    with that(1) obtain e' where "mapE (buildSingleItem srv (data c)) (requests (data c)) = Inl e'"
      using mapE_Inl by metis
    then show ?thesis
      by (simp add: ngOnInit_def promiseAll_def mapE_map Let_def)
  qed
  from busy fail show ?thesis by blast
qed

theorem ngOnInit_busy_witness:
  "getExtendedEntity exServices (key (exApproval ''r3'')) = Inl (Rejected ''not found'')
   \<and> fst (ngOnInit exServices (exBulk [exApproval ''r1'', exApproval ''r3'', exApproval ''r2'']))
       = Some (Rejected ''not found'')
   \<and> bulk_requests (snd (ngOnInit exServices
        (exBulk [exApproval ''r1'', exApproval ''r3'', exApproval ''r2'']))) = None
   \<and> busyService (snd (ngOnInit exServices
        (exBulk [exApproval ''r1'', exApproval ''r3'', exApproval ''r2''])))
       = [BeginBusy, EndBusy]"
proof -
  let ?c = "exBulk [exApproval ''r1'', exApproval ''r3'', exApproval ''r2'']"
  have given: "exApproval ''r3'' \<in> set (requests (data ?c))
      \<and> parameterColumns (exApproval ''r3'') \<noteq> None
      \<and> getExtendedEntity exServices (key (exApproval ''r3'')) = Inl (Rejected ''not found'')
      \<and> bulk_requests ?c = None \<and> busyService ?c = []"
    by (simp add: bulk_ex_defs)
  have err: "fst (ngOnInit exServices ?c) = Some (Rejected ''not found'')"
    by (simp add: bulk_ex_defs ngOnInit_def promiseAll_def buildSingleItem_def Let_def)
  from given err ngOnInit_busy [of exServices ?c "exApproval ''r3''" "Rejected ''not found''"]
  show ?thesis by simp
qed

end
